theory Spec2Isabelle
  imports Complex_Main
begin

text \<open>
  The voyage scheduler and the buffer simulation of \<^verbatim>\<open>app.py\<close> (classes \<^verbatim>\<open>Leg\<close>,
  \<^verbatim>\<open>Route\<close>, \<^verbatim>\<open>VoyageScheduler\<close>, \<^verbatim>\<open>TankSimulation\<close>) and the metrics computed from
  them in \<^verbatim>\<open>export_to_excel\<close> and on the first tab, as functions of HOL, followed by the
  properties of the specification proved or refuted on them.
\<close>

section \<open>Time: datetime and timedelta\<close>

text \<open>
  Python's \<^verbatim>\<open>datetime\<close> and \<^verbatim>\<open>timedelta\<close> count whole microseconds, so both are
  integers here: a \<open>datetime\<close> is the number of microseconds since \<^verbatim>\<open>datetime.min\<close>, a
  \<open>timedelta\<close> a signed number of microseconds. Adding a timedelta to a datetime and
  subtracting two datetimes are integer addition and subtraction. The float arguments of
  the source (\<^verbatim>\<open>duration_days\<close>, \<^verbatim>\<open>interval_days\<close>, capacities) are real numbers, and
  the range limits of \<^verbatim>\<open>datetime\<close> (years 1 to 9999) are left out.
\<close>

type_synonym datetime = int
type_synonym timedelta = int

definition us_per_day :: int where
  "us_per_day = 86400000000"

definition round_half_even :: "real \<Rightarrow> int" where
  "round_half_even x =
     (let f = \<lfloor>x\<rfloor>; r = x - of_int f
      in if r < 1 / 2 then f
         else if 1 / 2 < r then f + 1
         else if even f then f else f + 1)"

text \<open>\<^verbatim>\<open>timedelta(days=d)\<close>: the microseconds of \<open>d\<close> days, rounded half to even.\<close>

definition timedelta_days :: "real \<Rightarrow> timedelta" where
  "timedelta_days d = round_half_even (d * of_int us_per_day)"

text \<open>\<^verbatim>\<open>td.days\<close>: the day component of a normalised timedelta, which is the floor
  of the duration in days (also for a negative duration).\<close>

definition td_days :: "timedelta \<Rightarrow> int" where
  "td_days td = td div us_per_day"

section \<open>Errors\<close>

text \<open>
  \<open>IndexError\<close> and \<open>ValueError\<close> are the exceptions the source can raise (indexing an
  empty list, \<^verbatim>\<open>max\<close>/\<^verbatim>\<open>min\<close> of an empty list). \<open>InvalidConfiguration\<close> and
  \<open>EmptyResultError\<close> are the two error kinds the specification names; no definition
  below produces them, as no line of the source raises them.
\<close>

datatype py_error = IndexError | ValueError | InvalidConfiguration | EmptyResultError

section \<open>Legs and routes\<close>

record Leg =
  leg_name :: string
  port_from :: string
  port_to :: string
  duration_days :: real
  operation_days :: real

definition leg_total_time :: "Leg \<Rightarrow> real" where
  "leg_total_time l = duration_days l + operation_days l"

record Route =
  route_name :: string
  legs :: "Leg list"
  ship_capacity :: real

definition route_total_time :: "Route \<Rightarrow> real" where
  "route_total_time r = sum_list (map leg_total_time (legs r))"

text \<open>\<^verbatim>\<open>get_ports\<close> reads \<^verbatim>\<open>self.legs[0]\<close>, which raises on an empty leg list.\<close>

definition get_ports :: "Route \<Rightarrow> py_error + string list" where
  "get_ports r =
     (case legs r of
        [] \<Rightarrow> Inl IndexError
      | l0 # _ \<Rightarrow> Inr (port_from l0 # map port_to (legs r)))"

section \<open>Voyage scheduler\<close>

text \<open>The decimal text of an integer, for the f-string \<^verbatim>\<open>f"Ship_{ship_id}"\<close>.\<close>

definition digit_char :: "nat \<Rightarrow> char" where
  "digit_char n = ''0123456789'' ! n"

fun str_nat :: "nat \<Rightarrow> string" where
  "str_nat n =
     (if n < 10 then [digit_char n]
      else str_nat (n div 10) @ [digit_char (n mod 10)])"

definition str_int :: "int \<Rightarrow> string" where
  "str_int i = (if i < 0 then CHR ''-'' # str_nat (nat (- i)) else str_nat (nat i))"

text \<open>One entry of a voyage's \<^verbatim>\<open>itinerary\<close> (a dict in the source).\<close>

record Stop =
  leg_no :: int
  leg :: string
  stop_port_from :: string
  stop_port_to :: string
  departure :: datetime
  arrival :: datetime
  operation_end :: datetime
  voyage_time_days :: real
  stop_operation_days :: real

text \<open>A voyage (a dict in the source).\<close>

record Voyage =
  ship_id :: int
  voyage_route :: string
  ship_name :: string
  capacity :: real
  itinerary :: "Stop list"
  total_voyage_time :: int
  arrival_final :: datetime

text \<open>
  The loop of \<^verbatim>\<open>_calculate_voyage\<close> over \<^verbatim>\<open>enumerate(self.route.legs)\<close>: \<open>i\<close> is the index
  of the next leg, the state is the itinerary built so far and \<^verbatim>\<open>current_time\<close>.
\<close>

fun walk_legs :: "nat \<Rightarrow> Leg list \<Rightarrow> Stop list \<Rightarrow> datetime \<Rightarrow> Stop list \<times> datetime" where
  "walk_legs i [] itin current_time = (itin, current_time)"
| "walk_legs i (l # rest) itin current_time =
     (let leg_start = current_time;
          arrival_t = leg_start + timedelta_days (duration_days l);
          leg_end = arrival_t + timedelta_days (operation_days l)
      in walk_legs (Suc i) rest
           (itin @ [\<lparr>leg_no = int i + 1, leg = leg_name l,
                     stop_port_from = port_from l, stop_port_to = port_to l,
                     departure = leg_start, arrival = arrival_t, operation_end = leg_end,
                     voyage_time_days = duration_days l,
                     stop_operation_days = operation_days l\<rparr>])
           leg_end)"

definition calculate_voyage :: "Route \<Rightarrow> int \<Rightarrow> datetime \<Rightarrow> Voyage" where
  "calculate_voyage r sid dep =
     (case walk_legs 0 (legs r) [] dep of
        (itin, current_time) \<Rightarrow>
          \<lparr>ship_id = sid, voyage_route = route_name r,
           ship_name = ''Ship_'' @ str_int sid,
           capacity = ship_capacity r, itinerary = itin,
           total_voyage_time = td_days (current_time - dep),
           arrival_final = current_time\<rparr>)"

text \<open>\<^verbatim>\<open>_generate_voyages\<close>: one voyage for each \<^verbatim>\<open>ship_id\<close> in \<^verbatim>\<open>range(1, num_ships + 1)\<close>.\<close>

definition generate_voyages :: "Route \<Rightarrow> datetime \<Rightarrow> int \<Rightarrow> real \<Rightarrow> Voyage list" where
  "generate_voyages r start n interval =
     map (\<lambda>sid. calculate_voyage r sid
                  (start + timedelta_days (of_int (sid - 1) * interval)))
         [1..n]"

record VoyageScheduler =
  route :: Route
  start_date :: datetime
  num_ships :: int
  interval_days :: real
  voyages :: "Voyage list"

text \<open>\<^verbatim>\<open>VoyageScheduler.__init__\<close>.\<close>

definition new_scheduler :: "Route \<Rightarrow> datetime \<Rightarrow> int \<Rightarrow> real \<Rightarrow> VoyageScheduler" where
  "new_scheduler r start n interval =
     \<lparr>route = r, start_date = start, num_ships = n, interval_days = interval,
      voyages = generate_voyages r start n interval\<rparr>"

section \<open>Buffer (tank) simulation\<close>

text \<open>
  The \<^verbatim>\<open>type\<close> of an event is one of the two strings \<^verbatim>\<open>"river_arrival"\<close> and
  \<^verbatim>\<open>"sea_departure"\<close>, the only ones \<^verbatim>\<open>_simulate\<close> writes and reads.
\<close>

datatype event_type = river_arrival | sea_departure

record Event =
  time :: datetime
  type :: event_type
  ship :: string
  port :: string
  volume :: real

text \<open>
  The \<^verbatim>\<open>action\<close> text of a log entry is one of two f-strings around the event's volume;
  it is kept as the tag of the f-string together with the volume it prints.
\<close>

datatype Action = Unload real | Load real

record LogEntry =
  log_time :: datetime
  log_ship :: string
  action :: Action
  tank_level :: real
  log_port :: string

text \<open>
  The first loop of \<^verbatim>\<open>_simulate\<close>: one event per river voyage, at the arrival of
  \<^verbatim>\<open>voyage["itinerary"][-1]\<close>, which raises on an empty itinerary.
\<close>

fun river_loop :: "string \<Rightarrow> Voyage list \<Rightarrow> Event list \<Rightarrow> py_error + Event list" where
  "river_loop transfer_port [] evs = Inr evs"
| "river_loop transfer_port (v # vs) evs =
     (if itinerary v = [] then Inl IndexError
      else let last_stop = last (itinerary v)
           in river_loop transfer_port vs
                (evs @ [\<lparr>time = arrival last_stop, type = river_arrival,
                          ship = ship_name v, port = transfer_port,
                          volume = capacity v\<rparr>]))"

text \<open>
  The second loop: one event per sea voyage, at the departure of
  \<^verbatim>\<open>voyage["itinerary"][0]\<close>.
\<close>

fun sea_loop :: "string \<Rightarrow> Voyage list \<Rightarrow> Event list \<Rightarrow> py_error + Event list" where
  "sea_loop transfer_port [] evs = Inr evs"
| "sea_loop transfer_port (v # vs) evs =
     (case itinerary v of
        [] \<Rightarrow> Inl IndexError
      | first_stop # _ \<Rightarrow>
          sea_loop transfer_port vs
            (evs @ [\<lparr>time = departure first_stop, type = sea_departure,
                      ship = ship_name v, port = transfer_port,
                      volume = capacity v\<rparr>]))"

text \<open>The body of the replay loop: the state is \<^verbatim>\<open>self.level\<close> and \<^verbatim>\<open>self.tank_log\<close>.\<close>

fun apply_event :: "real \<Rightarrow> real \<times> LogEntry list \<Rightarrow> Event \<Rightarrow> real \<times> LogEntry list" where
  "apply_event cap (level, tlog) e =
     (case type e of
        river_arrival \<Rightarrow>
          (let level1 = level + volume e;
               level2 = (if level1 > cap then cap else level1)
           in (level2,
               tlog @ [\<lparr>log_time = time e, log_ship = ship e, action = Unload (volume e),
                        tank_level = level2, log_port = port e\<rparr>]))
      | sea_departure \<Rightarrow>
          (let level1 = level - volume e;
               level2 = (if level1 < 0 then 0 else level1)
           in (level2,
               tlog @ [\<lparr>log_time = time e, log_ship = ship e, action = Load (volume e),
                        tank_level = level2, log_port = port e\<rparr>])))"

definition replay :: "real \<Rightarrow> real \<times> LogEntry list \<Rightarrow> Event list \<Rightarrow> real \<times> LogEntry list" where
  "replay cap st evs = foldl (apply_event cap) st evs"

record TankSimulation =
  tank_capacity :: real
  level :: real
  river_scheduler :: VoyageScheduler
  sea_scheduler :: VoyageScheduler
  events :: "Event list"
  tank_log :: "LogEntry list"

text \<open>The event list of \<^verbatim>\<open>_simulate\<close> before \<^verbatim>\<open>self.events.sort\<close>.\<close>

definition build_events :: "VoyageScheduler \<Rightarrow> VoyageScheduler \<Rightarrow> py_error + Event list" where
  "build_events rs ss =
     (case get_ports (route rs) of
        Inl err \<Rightarrow> Inl err
      | Inr ports \<Rightarrow>
          (let transfer_port = last ports
           in case river_loop transfer_port (voyages rs) [] of
                Inl err \<Rightarrow> Inl err
              | Inr evs \<Rightarrow> sea_loop transfer_port (voyages ss) evs))"

text \<open>
  \<^verbatim>\<open>TankSimulation.__init__\<close> with \<^verbatim>\<open>_simulate\<close>. Python's \<^verbatim>\<open>list.sort\<close> is stable, as
  \<open>sort_key\<close> is.
\<close>

definition new_simulation ::
    "real \<Rightarrow> VoyageScheduler \<Rightarrow> VoyageScheduler \<Rightarrow> py_error + TankSimulation" where
  "new_simulation cap rs ss =
     (case build_events rs ss of
        Inl err \<Rightarrow> Inl err
      | Inr evs0 \<Rightarrow>
          (let evs = sort_key time evs0
           in case replay cap (0, []) evs of
                (lvl, tlog) \<Rightarrow>
                  Inr \<lparr>tank_capacity = cap, level = lvl, river_scheduler = rs,
                       sea_scheduler = ss, events = evs, tank_log = tlog\<rparr>))"

section \<open>Buffer replay on floats\<close>

text \<open>
  A Python \<^verbatim>\<open>float\<close> is an IEEE 754 binary64 number: the result of an addition or a
  subtraction is the exact result rounded to the nearest number with a significand of 53
  bits, a tie going to the even significand. \<open>round_double\<close> is this rounding on the
  normal range; overflow to infinity and the subnormal numbers are left out.
\<close>

definition round_double :: "real \<Rightarrow> real" where
  "round_double x =
     (if x = 0 then 0
      else let s = 2 powr of_int (\<lfloor>log 2 \<bar>x\<bar>\<rfloor> - 52)
           in of_int (round_half_even (x / s)) * s)"

text \<open>
  The body of the replay loop and the loop, with the rounding \<open>rnd\<close> of the one addition
  or subtraction of each step written out. With \<open>round_double\<close> this is the loop on float
  volumes; with the identity it is \<open>apply_event\<close>, the loop on numbers added exactly, as
  Python's \<^verbatim>\<open>int\<close> are.
\<close>

fun apply_event_fl ::
    "(real \<Rightarrow> real) \<Rightarrow> real \<Rightarrow> real \<times> LogEntry list \<Rightarrow> Event \<Rightarrow> real \<times> LogEntry list" where
  "apply_event_fl rnd cap (lvl, tlog) e =
     (case type e of
        river_arrival \<Rightarrow>
          (let level1 = rnd (lvl + volume e);
               level2 = (if level1 > cap then cap else level1)
           in (level2,
               tlog @ [\<lparr>log_time = time e, log_ship = ship e, action = Unload (volume e),
                        tank_level = level2, log_port = port e\<rparr>]))
      | sea_departure \<Rightarrow>
          (let level1 = rnd (lvl - volume e);
               level2 = (if level1 < 0 then 0 else level1)
           in (level2,
               tlog @ [\<lparr>log_time = time e, log_ship = ship e, action = Load (volume e),
                        tank_level = level2, log_port = port e\<rparr>])))"

definition replay_fl ::
    "(real \<Rightarrow> real) \<Rightarrow> real \<Rightarrow> real \<times> LogEntry list \<Rightarrow> Event list \<Rightarrow> real \<times> LogEntry list" where
  "replay_fl rnd cap st evs = foldl (apply_event_fl rnd cap) st evs"

section \<open>Derived metrics\<close>

text \<open>\<^verbatim>\<open>max(xs)\<close> and \<^verbatim>\<open>min(xs)\<close> of a list raise \<^verbatim>\<open>ValueError\<close> when it is empty.\<close>

fun py_max :: "'a::linorder list \<Rightarrow> py_error + 'a" where
  "py_max [] = Inl ValueError"
| "py_max (x # xs) = Inr (foldl max x xs)"

fun py_min :: "'a::linorder list \<Rightarrow> py_error + 'a" where
  "py_min [] = Inl ValueError"
| "py_min (x # xs) = Inr (foldl min x xs)"

definition max_level :: "TankSimulation \<Rightarrow> py_error + real" where
  "max_level sim = py_max (map tank_level (tank_log sim))"

definition min_level :: "TankSimulation \<Rightarrow> py_error + real" where
  "min_level sim = py_min (map tank_level (tank_log sim))"

text \<open>
  The cycle metric of \<^verbatim>\<open>export_to_excel\<close> and of the first tab: the list comprehension
  evaluates \<^verbatim>\<open>river_scheduler.voyages[0]['itinerary'][0]\<close> once per element, so it raises
  \<^verbatim>\<open>IndexError\<close> only when there is an element; with no voyage at all \<^verbatim>\<open>max\<close> raises.
\<close>

definition cycle_length :: "VoyageScheduler \<Rightarrow> VoyageScheduler \<Rightarrow> py_error + int" where
  "cycle_length rs ss =
     (case voyages rs @ voyages ss of
        [] \<Rightarrow> Inl ValueError
      | _ # _ \<Rightarrow>
          (case voyages rs of
             [] \<Rightarrow> Inl IndexError
           | v0 # _ \<Rightarrow>
               (case itinerary v0 of
                  [] \<Rightarrow> Inl IndexError
                | s0 # _ \<Rightarrow>
                    py_max (map (\<lambda>v. td_days (arrival_final v - departure s0))
                                (voyages rs @ voyages ss)))))"

section \<open>Auxiliary notions for the statements\<close>

text \<open>
  \<open>chained t ss\<close>: the stops \<open>ss\<close> follow one another from time \<open>t\<close> with no idle time,
  each stop's arrival and end of operation being derived from its own durations;
  \<open>end_of t ss\<close> is the time at which such a sequence ends.
\<close>

fun chained :: "datetime \<Rightarrow> Stop list \<Rightarrow> bool" where
  "chained t [] = True"
| "chained t (s # ss) =
     (departure s = t \<and>
      arrival s = departure s + timedelta_days (voyage_time_days s) \<and>
      operation_end s = arrival s + timedelta_days (stop_operation_days s) \<and>
      chained (operation_end s) ss)"

fun end_of :: "datetime \<Rightarrow> Stop list \<Rightarrow> datetime" where
  "end_of t [] = t"
| "end_of t (s # ss) = end_of (operation_end s) ss"

text \<open>
  Volumes of an event sequence: the total of the inflow volumes, the total of the outflow
  volumes, and their difference; \<open>signed_volume\<close> is one event's share of the difference.
  \<open>in_range cap x\<close> says that \<open>x\<close> lies between 0 and \<open>cap\<close>. \<open>and_then\<close> passes the
  result of a step that may fail to the next step.
\<close>

definition signed_volume :: "Event \<Rightarrow> real" where
  "signed_volume e = (case type e of river_arrival \<Rightarrow> volume e | sea_departure \<Rightarrow> - volume e)"

definition total_inflow :: "Event list \<Rightarrow> real" where
  "total_inflow evs = sum_list (map volume (filter (\<lambda>e. type e = river_arrival) evs))"

definition total_outflow :: "Event list \<Rightarrow> real" where
  "total_outflow evs = sum_list (map volume (filter (\<lambda>e. type e = sea_departure) evs))"

definition net_volume :: "Event list \<Rightarrow> real" where
  "net_volume evs = total_inflow evs - total_outflow evs"

definition in_range :: "real \<Rightarrow> real \<Rightarrow> bool" where
  "in_range cap x = (0 \<le> x \<and> x \<le> cap)"

definition and_then :: "py_error + 'a \<Rightarrow> ('a \<Rightarrow> py_error + 'b) \<Rightarrow> py_error + 'b" where
  "and_then res f = (case res of Inl err \<Rightarrow> Inl err | Inr x \<Rightarrow> f x)"

definition log_levels :: "TankSimulation \<Rightarrow> py_error + real list" where
  "log_levels sim = Inr (map tank_level (tank_log sim))"

section \<open>Example data\<close>

definition ex_leg1 :: Leg where
  "ex_leg1 = \<lparr>leg_name = ''A-M'', port_from = ''PortA'', port_to = ''PortM'',
              duration_days = 5, operation_days = 3 / 4\<rparr>"

definition ex_leg2 :: Leg where
  "ex_leg2 = \<lparr>leg_name = ''M-B'', port_from = ''PortM'', port_to = ''PortB'',
              duration_days = 2, operation_days = 1\<rparr>"

definition ex_route :: Route where
  "ex_route = \<lparr>route_name = ''River'', legs = [ex_leg1, ex_leg2], ship_capacity = 30\<rparr>"

definition ex_leg3 :: Leg where
  "ex_leg3 = \<lparr>leg_name = ''B-C'', port_from = ''PortB'', port_to = ''PortC'',
              duration_days = 3, operation_days = 1\<rparr>"

definition ex_sea_route :: Route where
  "ex_sea_route = \<lparr>route_name = ''Sea'', legs = [ex_leg3], ship_capacity = 25\<rparr>"

definition ex_river :: VoyageScheduler where
  "ex_river = new_scheduler ex_route 0 2 1"

definition ex_sea :: VoyageScheduler where
  "ex_sea = new_scheduler ex_sea_route 669600000000 2 1"

definition ex_empty_route :: Route where
  "ex_empty_route = \<lparr>route_name = ''Empty'', legs = [], ship_capacity = 30\<rparr>"

definition ex_events :: "Event list" where
  "ex_events =
     [\<lparr>time = 669600000000, type = river_arrival, ship = ''Ship_1'', port = ''PortB'', volume = 30\<rparr>,
      \<lparr>time = 669600000000, type = sea_departure, ship = ''Ship_1'', port = ''PortB'', volume = 25\<rparr>,
      \<lparr>time = 756000000000, type = river_arrival, ship = ''Ship_2'', port = ''PortB'', volume = 30\<rparr>,
      \<lparr>time = 756000000000, type = sea_departure, ship = ''Ship_2'', port = ''PortB'', volume = 25\<rparr>]"

definition ex_presort :: "Event list" where
  "ex_presort =
     [\<lparr>time = 669600000000, type = river_arrival, ship = ''Ship_1'', port = ''PortB'', volume = 30\<rparr>,
      \<lparr>time = 756000000000, type = river_arrival, ship = ''Ship_2'', port = ''PortB'', volume = 30\<rparr>,
      \<lparr>time = 669600000000, type = sea_departure, ship = ''Ship_1'', port = ''PortB'', volume = 25\<rparr>,
      \<lparr>time = 756000000000, type = sea_departure, ship = ''Ship_2'', port = ''PortB'', volume = 25\<rparr>]"

definition ex_log :: "LogEntry list" where
  "ex_log =
     [\<lparr>log_time = 669600000000, log_ship = ''Ship_1'', action = Unload 30, tank_level = 30, log_port = ''PortB''\<rparr>,
      \<lparr>log_time = 669600000000, log_ship = ''Ship_1'', action = Load 25, tank_level = 5, log_port = ''PortB''\<rparr>,
      \<lparr>log_time = 756000000000, log_ship = ''Ship_2'', action = Unload 30, tank_level = 35, log_port = ''PortB''\<rparr>,
      \<lparr>log_time = 756000000000, log_ship = ''Ship_2'', action = Load 25, tank_level = 10, log_port = ''PortB''\<rparr>]"

definition ex_sim :: TankSimulation where
  "ex_sim = \<lparr>tank_capacity = 100, level = 10, river_scheduler = ex_river,
             sea_scheduler = ex_sea, events = ex_events, tank_log = ex_log\<rparr>"

definition ex_late_river :: VoyageScheduler where
  "ex_late_river = new_scheduler ex_route 864000000000 2 1"

definition ex_early_sea :: VoyageScheduler where
  "ex_early_sea = new_scheduler ex_sea_route 0 2 1"

definition ex_no_river :: VoyageScheduler where
  "ex_no_river = new_scheduler ex_route 0 0 1"

definition ex_no_sea :: VoyageScheduler where
  "ex_no_sea = new_scheduler ex_sea_route 0 0 1"

definition ex_empty_sim :: TankSimulation where
  "ex_empty_sim = \<lparr>tank_capacity = 100, level = 0, river_scheduler = ex_no_river,
                   sea_scheduler = ex_no_sea, events = [], tank_log = []\<rparr>"

definition ex_tenth :: real where
  "ex_tenth = 3602879701896397 / 36028797018963968"

definition ex_tenths :: "nat \<Rightarrow> Event list" where
  "ex_tenths n =
     replicate n \<lparr>time = 0, type = river_arrival, ship = ''Ship_1'', port = ''PortB'',
                  volume = ex_tenth\<rparr>"

definition ex_cap :: real where
  "ex_cap = 3602879701896397 / 2251799813685248"

lemmas eval_defs = new_scheduler_def generate_voyages_def calculate_voyage_def ex_route_def
  ex_leg1_def ex_leg2_def timedelta_days_def round_half_even_def us_per_day_def td_days_def
  upto.simps str_int_def digit_char_def

lemmas sim_eval_defs = new_simulation_def build_events_def get_ports_def replay_def
  ex_river_def ex_sea_def ex_sea_route_def ex_leg3_def Let_def and_then_def log_levels_def

lemmas empty_eval_defs = ex_no_river_def ex_no_sea_def ex_empty_sim_def max_level_def
  min_level_def ex_empty_route_def

section \<open>The itinerary of a voyage\<close>

lemma chained_append:
  "chained t (xs @ ys) = (chained t xs \<and> chained (end_of t xs) ys)"
  by (induction xs arbitrary: t) auto

lemma end_of_append: "end_of t (xs @ ys) = end_of (end_of t xs) ys"
  by (induction xs arbitrary: t) auto

lemma end_of_last: "ss \<noteq> [] \<Longrightarrow> end_of t ss = operation_end (last ss)"
  by (induction ss arbitrary: t) auto

lemma chained_hd: "chained t ss \<Longrightarrow> ss \<noteq> [] \<Longrightarrow> departure (hd ss) = t"
  by (cases ss) auto

lemma chained_nth:
  "chained t ss \<Longrightarrow> 0 < i \<Longrightarrow> i < length ss \<Longrightarrow>
   departure (ss ! i) = operation_end (ss ! (i - 1))"
proof (induction ss arbitrary: t i)
  case Nil
  then show ?case by simp
next
  case (Cons s ss)
  show ?case
  proof (cases "i = 1")
    case True
    with Cons.prems show ?thesis by (cases ss) auto
  next
    case False
    with Cons.prems have i: "0 < i - 1" "i - 1 < length ss" by auto
    from Cons.prems(1) have c: "chained (operation_end s) ss"
      unfolding chained.simps by blast
    have "departure (ss ! (i - 1)) = operation_end (ss ! (i - 1 - 1))"
      using Cons.IH[OF c i] .
    with Cons.prems False show ?thesis by (cases i) (auto simp: nth_Cons')
  qed
qed

lemma chained_set:
  "chained t ss \<Longrightarrow> s \<in> set ss \<Longrightarrow>
   arrival s = departure s + timedelta_days (voyage_time_days s) \<and>
   operation_end s = arrival s + timedelta_days (stop_operation_days s)"
  by (induction ss arbitrary: t) auto

lemma walk_legs_inv:
  "chained t0 itin \<Longrightarrow> end_of t0 itin = t \<Longrightarrow> walk_legs i ls itin t = (itin', t') \<Longrightarrow>
   chained t0 itin' \<and> end_of t0 itin' = t' \<and>
   length itin' = length itin + length ls \<and>
   map voyage_time_days itin' = map voyage_time_days itin @ map duration_days ls \<and>
   map stop_operation_days itin' = map stop_operation_days itin @ map operation_days ls"
proof (induction ls arbitrary: i itin t)
  case Nil
  then show ?case by simp
next
  case (Cons l ls)
  let ?s = "\<lparr>leg_no = int i + 1, leg = leg_name l,
             stop_port_from = port_from l, stop_port_to = port_to l,
             departure = t, arrival = t + timedelta_days (duration_days l),
             operation_end = t + timedelta_days (duration_days l) + timedelta_days (operation_days l),
             voyage_time_days = duration_days l,
             stop_operation_days = operation_days l\<rparr>"
  from Cons.prems(3) have w: "walk_legs (Suc i) ls (itin @ [?s]) (operation_end ?s) = (itin', t')"
    by (simp add: Let_def)
  have c: "chained t0 (itin @ [?s])"
    using Cons.prems(1,2) by (simp add: chained_append)
  have e: "end_of t0 (itin @ [?s]) = operation_end ?s"
    by (simp add: end_of_append)
  from Cons.IH[OF c e w] show ?case by simp
qed

lemma calculate_voyage_props:
  "chained dep (itinerary (calculate_voyage r sid dep)) \<and>
   end_of dep (itinerary (calculate_voyage r sid dep)) = arrival_final (calculate_voyage r sid dep) \<and>
   length (itinerary (calculate_voyage r sid dep)) = length (legs r) \<and>
   map voyage_time_days (itinerary (calculate_voyage r sid dep)) = map duration_days (legs r) \<and>
   map stop_operation_days (itinerary (calculate_voyage r sid dep)) = map operation_days (legs r) \<and>
   total_voyage_time (calculate_voyage r sid dep) = td_days (arrival_final (calculate_voyage r sid dep) - dep) \<and>
   ship_id (calculate_voyage r sid dep) = sid \<and>
   capacity (calculate_voyage r sid dep) = ship_capacity r"
proof -
  obtain itin' t' where w: "walk_legs 0 (legs r) [] dep = (itin', t')"
    by (cases "walk_legs 0 (legs r) [] dep")
  have "chained dep []" "end_of dep [] = dep" by simp_all
  from walk_legs_inv[OF this w] w show ?thesis
    by (simp add: calculate_voyage_def)
qed

lemma voyages_new_scheduler:
  "voyages (new_scheduler r start n d) =
   map (\<lambda>sid. calculate_voyage r sid (start + timedelta_days (of_int (sid - 1) * d))) [1..n]"
  by (simp add: new_scheduler_def generate_voyages_def)

lemma voyage_in_scheduler:
  "v \<in> set (voyages (new_scheduler r start n d)) \<Longrightarrow>
   \<exists>sid. 1 \<le> sid \<and> sid \<le> n \<and>
         v = calculate_voyage r sid (start + timedelta_days (of_int (sid - 1) * d))"
  by (auto simp: voyages_new_scheduler)

section \<open>Voyage scheduler: chaining\<close>

text \<open>
  C2. In every voyage the scheduler produces, each stop after the first departs exactly
  when the previous stop's operation ends; within each stop the arrival is the departure
  plus the transit duration and the end of operation is the arrival plus the operation
  duration, the two durations being those of the route's legs, in order.
\<close>

theorem C2_chaining:
  assumes "v \<in> set (voyages (new_scheduler r start n d))"
  shows "(\<forall>i. 0 < i \<and> i < length (itinerary v) \<longrightarrow>
            departure (itinerary v ! i) = operation_end (itinerary v ! (i - 1))) \<and>
         (\<forall>s \<in> set (itinerary v).
            arrival s = departure s + timedelta_days (voyage_time_days s) \<and>
            operation_end s = arrival s + timedelta_days (stop_operation_days s)) \<and>
         map voyage_time_days (itinerary v) = map duration_days (legs r) \<and>
         map stop_operation_days (itinerary v) = map operation_days (legs r)"
proof -
  from voyage_in_scheduler[OF assms] obtain sid where
    v: "v = calculate_voyage r sid (start + timedelta_days (of_int (sid - 1) * d))"
    by blast
  let ?dep = "start + timedelta_days (of_int (sid - 1) * d)"
  have c: "chained ?dep (itinerary v)"
    and m: "map voyage_time_days (itinerary v) = map duration_days (legs r)"
           "map stop_operation_days (itinerary v) = map operation_days (legs r)"
    using calculate_voyage_props[of ?dep r sid] v by simp_all
  show ?thesis
    using chained_nth[OF c] chained_set[OF c] m by blast
qed

theorem C2_chaining_witness:
  "(let v = hd (voyages (new_scheduler ex_route 0 2 1))
    in v \<in> set (voyages (new_scheduler ex_route 0 2 1)) \<and>
       length (itinerary v) = 2 \<and>
       departure (itinerary v ! 1) = operation_end (itinerary v ! 0) \<and>
       departure (itinerary v ! 1) = 496800000000)"
  using C2_chaining[of "hd (voyages (new_scheduler ex_route 0 2 1))" ex_route 0 2 1]
  by (simp add: eval_defs)

section \<open>Voyage scheduler: departure spacing\<close>

lemma timedelta_days_0: "timedelta_days 0 = 0"
  by (simp add: timedelta_days_def round_half_even_def)

lemma td_days_floor: "td_days td = \<lfloor>real_of_int td / 86400000000\<rfloor>"
proof -
  have "\<lfloor>real_of_int td / real_of_int 86400000000\<rfloor> = td div 86400000000"
    by (rule floor_divide_of_int_eq)
  then show ?thesis by (simp add: td_days_def us_per_day_def)
qed

lemma nth_voyages:
  assumes "1 \<le> k" "k \<le> n"
  shows "voyages (new_scheduler r start n d) ! nat (k - 1) =
         calculate_voyage r k (start + timedelta_days (of_int (k - 1) * d))"
proof -
  have l: "nat (k - 1) < length [1..n]" using assms by simp
  have "[1..n] ! nat (k - 1) = 1 + int (nat (k - 1))"
    by (rule nth_upto) (use assms in simp)
  then have "[1..n] ! nat (k - 1) = k" using assms by simp
  with l show ?thesis by (simp add: voyages_new_scheduler)
qed

text \<open>
  C3. A scheduler built for \<open>n\<close> vessels has \<open>n\<close> voyages, and for every \<open>k\<close> from 1 to
  \<open>n\<close> the \<open>k\<close>-th voyage belongs to ship \<open>k\<close> and its first stop departs at
  \<open>start_date + timedelta(days = (k - 1) * d)\<close>; the constructor is a total function for
  every interval, and with interval 0 every voyage departs at \<open>start_date\<close>.
\<close>

theorem C3_departure_spacing:
  assumes "1 \<le> k" "k \<le> n" "legs r \<noteq> []"
  shows "length (voyages (new_scheduler r start n d)) = nat n \<and>
         (let v = voyages (new_scheduler r start n d) ! nat (k - 1)
          in ship_id v = k \<and> itinerary v \<noteq> [] \<and>
             departure (hd (itinerary v)) = start + timedelta_days (of_int (k - 1) * d) \<and>
             (d = 0 \<longrightarrow> departure (hd (itinerary v)) = start))"
proof -
  let ?dep = "start + timedelta_days (of_int (k - 1) * d)"
  let ?v = "calculate_voyage r k ?dep"
  have p: "chained ?dep (itinerary ?v)" "length (itinerary ?v) = length (legs r)"
          "ship_id ?v = k"
    using calculate_voyage_props[of ?dep r k] by simp_all
  from p(2) assms(3) have ne: "itinerary ?v \<noteq> []" by auto
  have h: "departure (hd (itinerary ?v)) = ?dep"
    using chained_hd[OF p(1) ne] .
  have "d = 0 \<longrightarrow> ?dep = start" by (simp add: timedelta_days_0)
  with h have z: "d = 0 \<longrightarrow> departure (hd (itinerary ?v)) = start" by metis
  have len: "length (voyages (new_scheduler r start n d)) = nat n"
    by (simp add: voyages_new_scheduler)
  show ?thesis
    unfolding Let_def nth_voyages[OF assms(1,2)]
    using len p(3) ne h z by blast
qed

theorem C3_departure_spacing_witness:
  "(1::int) \<le> 2 \<and> (2::int) \<le> 2 \<and> legs ex_route \<noteq> [] \<and>
   length (voyages (new_scheduler ex_route 0 2 0)) = 2 \<and>
   departure (hd (itinerary (voyages (new_scheduler ex_route 0 2 0) ! 1))) = 0 \<and>
   departure (hd (itinerary (voyages (new_scheduler ex_route 0 2 (1/2)) ! 1))) = 43200000000"
  using C3_departure_spacing[of 2 2 ex_route 0 0]
        C3_departure_spacing[of 2 2 ex_route 0 "1/2"]
  by (simp add: eval_defs)

section \<open>Voyage scheduler: total voyage time\<close>

text \<open>
  C8. The \<open>total_voyage_time\<close> of a voyage is the floor, in whole days, of the time
  elapsed from the voyage's departure to its final time, which on a route with legs is
  the time from the first stop's departure to the last stop's end of operation.
\<close>

theorem C8_total_voyage_time:
  assumes "v \<in> set (voyages (new_scheduler r start n d))"
  shows "(let dep = start + timedelta_days (of_int (ship_id v - 1) * d)
          in total_voyage_time v = \<lfloor>real_of_int (arrival_final v - dep) / 86400000000\<rfloor> \<and>
             (legs r \<noteq> [] \<longrightarrow>
                departure (hd (itinerary v)) = dep \<and>
                operation_end (last (itinerary v)) = arrival_final v))"
proof -
  from voyage_in_scheduler[OF assms] obtain sid where
    v: "v = calculate_voyage r sid (start + timedelta_days (of_int (sid - 1) * d))"
    by blast
  let ?dep = "start + timedelta_days (of_int (sid - 1) * d)"
  have p: "chained ?dep (itinerary v)" "end_of ?dep (itinerary v) = arrival_final v"
          "length (itinerary v) = length (legs r)"
          "total_voyage_time v = td_days (arrival_final v - ?dep)" "ship_id v = sid"
    using calculate_voyage_props[of ?dep r sid] v by simp_all
  have a: "total_voyage_time v = \<lfloor>real_of_int (arrival_final v - ?dep) / 86400000000\<rfloor>"
    using p(4) by (simp only: td_days_floor)
  have b: "legs r \<noteq> [] \<longrightarrow> departure (hd (itinerary v)) = ?dep \<and>
           operation_end (last (itinerary v)) = arrival_final v"
  proof
    assume "legs r \<noteq> []"
    with p(3) have ne: "itinerary v \<noteq> []" by auto
    from chained_hd[OF p(1) ne] end_of_last[OF ne, of ?dep] p(2)
    show "departure (hd (itinerary v)) = ?dep \<and>
          operation_end (last (itinerary v)) = arrival_final v" by simp
  qed
  show ?thesis unfolding Let_def p(5) using a b by blast
qed

theorem C8_total_voyage_time_witness:
  "(let v = hd (voyages (new_scheduler ex_route 0 2 1))
    in v \<in> set (voyages (new_scheduler ex_route 0 2 1)) \<and>
       arrival_final v - departure (hd (itinerary v)) = 756000000000 \<and>
       total_voyage_time v = 8)"
  using C8_total_voyage_time[of "hd (voyages (new_scheduler ex_route 0 2 1))" ex_route 0 2 1]
  by (simp add: eval_defs)

section \<open>Buffer simulation: event construction\<close>

lemma river_loop_ok:
  "\<forall>v \<in> set vs. itinerary v \<noteq> [] \<Longrightarrow>
   river_loop tp vs evs =
     Inr (evs @ map (\<lambda>v. \<lparr>time = arrival (last (itinerary v)), type = river_arrival,
                          ship = ship_name v, port = tp, volume = capacity v\<rparr>) vs)"
  by (induction vs arbitrary: evs) (simp_all add: Let_def)

lemma sea_loop_ok:
  "\<forall>v \<in> set vs. itinerary v \<noteq> [] \<Longrightarrow>
   sea_loop tp vs evs =
     Inr (evs @ map (\<lambda>v. \<lparr>time = departure (hd (itinerary v)), type = sea_departure,
                          ship = ship_name v, port = tp, volume = capacity v\<rparr>) vs)"
proof (induction vs arbitrary: evs)
  case Nil
  then show ?case by simp
next
  case (Cons v vs)
  then obtain s ss where "itinerary v = s # ss" by (cases "itinerary v") auto
  with Cons show ?case by simp
qed

lemma river_loop_fail:
  "\<exists>v \<in> set vs. itinerary v = [] \<Longrightarrow> river_loop tp vs evs = Inl IndexError"
  by (induction vs arbitrary: evs) (auto simp: Let_def)

lemma sea_loop_fail:
  "\<exists>v \<in> set vs. itinerary v = [] \<Longrightarrow> sea_loop tp vs evs = Inl IndexError"
  by (induction vs arbitrary: evs) (auto split: list.splits)

lemma get_ports_ok:
  "legs r \<noteq> [] \<Longrightarrow>
   get_ports r = Inr (port_from (hd (legs r)) # map port_to (legs r)) \<and>
   last (port_from (hd (legs r)) # map port_to (legs r)) = port_to (last (legs r))"
  by (cases "legs r") (simp_all add: get_ports_def last_map)

lemma build_events_ok:
  assumes "legs (route rs) \<noteq> []"
      and "\<forall>v \<in> set (voyages rs). itinerary v \<noteq> []"
      and "\<forall>v \<in> set (voyages ss). itinerary v \<noteq> []"
  shows "build_events rs ss =
     Inr (map (\<lambda>v. \<lparr>time = arrival (last (itinerary v)), type = river_arrival,
                    ship = ship_name v, port = port_to (last (legs (route rs))),
                    volume = capacity v\<rparr>) (voyages rs) @
          map (\<lambda>v. \<lparr>time = departure (hd (itinerary v)), type = sea_departure,
                    ship = ship_name v, port = port_to (last (legs (route rs))),
                    volume = capacity v\<rparr>) (voyages ss))"
proof -
  from get_ports_ok[OF assms(1)] obtain ports where
    g: "get_ports (route rs) = Inr ports" and l: "last ports = port_to (last (legs (route rs)))"
    by blast
  show ?thesis
    unfolding build_events_def g
    by (simp add: Let_def l river_loop_ok[OF assms(2)] sea_loop_ok[OF assms(3)])
qed

section \<open>Buffer simulation: replay\<close>

lemma replay_Nil: "replay cap st [] = st"
  by (simp add: replay_def)

lemma replay_Cons: "replay cap st (e # es) = replay cap (apply_event cap st e) es"
  by (simp add: replay_def)

lemma replay_snoc: "replay cap st (es @ [e]) = apply_event cap (replay cap st es) e"
  by (simp add: replay_def)

lemma apply_event_log:
  "apply_event cap (lvl, tlog) e = (lvl', tlog') \<Longrightarrow>
   tlog' = tlog @ [\<lparr>log_time = time e, log_ship = ship e,
                    action = (case type e of river_arrival \<Rightarrow> Unload (volume e)
                                           | sea_departure \<Rightarrow> Load (volume e)),
                    tank_level = lvl', log_port = port e\<rparr>]"
  by (cases "type e") (auto simp: Let_def)



lemma replay_log_order:
  "replay cap (lvl, tlog) evs = (lvl', tlog') \<Longrightarrow>
   map (\<lambda>l. (log_time l, log_ship l, action l, log_port l)) tlog' =
   map (\<lambda>l. (log_time l, log_ship l, action l, log_port l)) tlog @
   map (\<lambda>e. (time e, ship e,
              (case type e of river_arrival \<Rightarrow> Unload (volume e)
                            | sea_departure \<Rightarrow> Load (volume e)), port e)) evs"
proof (induction evs arbitrary: lvl tlog)
  case Nil
  then show ?case by (simp add: replay_Nil)
next
  case (Cons e es)
  obtain l1 t1 where a: "apply_event cap (lvl, tlog) e = (l1, t1)"
    by (cases "apply_event cap (lvl, tlog) e")
  from Cons.prems a have "replay cap (l1, t1) es = (lvl', tlog')"
    by (simp add: replay_Cons)
  from Cons.IH[OF this] apply_event_log[OF a] show ?case by simp
qed

lemma new_simulation_Inr:
  "new_simulation cap rs ss = Inr sim \<Longrightarrow>
   \<exists>evs0. build_events rs ss = Inr evs0 \<and> events sim = sort_key time evs0 \<and>
          replay cap (0, []) (events sim) = (level sim, tank_log sim) \<and>
          tank_capacity sim = cap"
  by (auto simp: new_simulation_def Let_def split: sum.splits prod.splits)

lemma replay_levels_length:
  assumes "replay cap (lvl, tlog) evs = (lvl', tlog')"
  shows "length tlog' = length tlog + length evs"
proof -
  have "length (map (\<lambda>l. (log_time l, log_ship l, action l, log_port l)) tlog') =
        length (map (\<lambda>l. (log_time l, log_ship l, action l, log_port l)) tlog @
                map (\<lambda>e. (time e, ship e,
                     (case type e of river_arrival \<Rightarrow> Unload (volume e)
                            | sea_departure \<Rightarrow> Load (volume e)), port e)) evs)"
    by (simp only: replay_log_order[OF assms])
  then show ?thesis by simp
qed

lemma river_loop_Inr:
  "river_loop tp vs evs = Inr res \<Longrightarrow> \<forall>v \<in> set vs. itinerary v \<noteq> []"
  by (induction vs arbitrary: evs) (auto simp: Let_def split: if_splits)

lemma sea_loop_Inr:
  "sea_loop tp vs evs = Inr res \<Longrightarrow> \<forall>v \<in> set vs. itinerary v \<noteq> []"
  by (induction vs arbitrary: evs) (auto split: list.splits)

lemma build_events_Inr:
  assumes "build_events rs ss = Inr evs0"
  shows "legs (route rs) \<noteq> [] \<and> (\<forall>v \<in> set (voyages rs). itinerary v \<noteq> []) \<and>
         (\<forall>v \<in> set (voyages ss). itinerary v \<noteq> [])"
proof -
  from assms obtain ports evs1 where
    g: "get_ports (route rs) = Inr ports" and
    r: "river_loop (last ports) (voyages rs) [] = Inr evs1" and
    s: "sea_loop (last ports) (voyages ss) evs1 = Inr evs0"
    by (auto simp: build_events_def Let_def split: sum.splits)
  from g have "legs (route rs) \<noteq> []"
    by (auto simp: get_ports_def)
  with river_loop_Inr[OF r] sea_loop_Inr[OF s] show ?thesis by blast
qed

lemma new_simulation_ok:
  assumes "build_events rs ss = Inr evs0"
  shows "\<exists>sim. new_simulation cap rs ss = Inr sim \<and> events sim = sort_key time evs0 \<and>
               tank_capacity sim = cap \<and>
               replay cap (0, []) (sort_key time evs0) = (level sim, tank_log sim) \<and>
               length (tank_log sim) = length evs0"
proof -
  obtain lvl tlog where r: "replay cap (0, []) (sort_key time evs0) = (lvl, tlog)"
    by (cases "replay cap (0, []) (sort_key time evs0)")
  from replay_levels_length[OF r] have "length tlog = length evs0" by simp
  with r assms show ?thesis
    by (simp add: new_simulation_def Let_def)
qed

section \<open>Example runs\<close>

lemma ex_simulation_events:
  "and_then (new_simulation 20 ex_river ex_sea) (\<lambda>sim. Inr (events sim)) = Inr ex_events"
  by (simp add: sim_eval_defs eval_defs ex_events_def)

lemma ex_itineraries:
  "legs (route ex_river) \<noteq> [] \<and> (\<forall>v \<in> set (voyages ex_river). itinerary v \<noteq> []) \<and>
   (\<forall>v \<in> set (voyages ex_sea). itinerary v \<noteq> [])"
  by (simp add: sim_eval_defs eval_defs)

lemma ex_sim_eq: "new_simulation 100 ex_river ex_sea = Inr ex_sim"
  by (simp add: sim_eval_defs eval_defs ex_sim_def ex_events_def ex_log_def)

lemma ex_presort_eq: "build_events ex_river ex_sea = Inr ex_presort"
  by (simp add: sim_eval_defs eval_defs ex_presort_def)

section \<open>Buffer simulation: clamping\<close>



section \<open>Buffer simulation: the events\<close>

text \<open>
  C4. When the inflow route has a leg and every voyage has a stop, the event list built
  before sorting holds, in order, one \<open>river_arrival\<close> event per inflow voyage at the
  arrival of its last stop and one \<open>sea_departure\<close> event per outflow voyage at the
  departure of its first stop; each carries the voyage's capacity as volume and the last
  port of the inflow route. The simulation's events are this list sorted by time, and
  its log has one entry per voyage.
\<close>

theorem C4_event_construction:
  assumes "legs (route rs) \<noteq> []"
      and "\<forall>v \<in> set (voyages rs). itinerary v \<noteq> []"
      and "\<forall>v \<in> set (voyages ss). itinerary v \<noteq> []"
  shows "(let transfer_port = port_to (last (legs (route rs)));
              evs0 =
                map (\<lambda>v. \<lparr>time = arrival (last (itinerary v)), type = river_arrival,
                          ship = ship_name v, port = transfer_port,
                          volume = capacity v\<rparr>) (voyages rs) @
                map (\<lambda>v. \<lparr>time = departure (hd (itinerary v)), type = sea_departure,
                          ship = ship_name v, port = transfer_port,
                          volume = capacity v\<rparr>) (voyages ss)
          in and_then (get_ports (route rs)) (\<lambda>ports. Inr (last ports)) = Inr transfer_port \<and>
             build_events rs ss = Inr evs0 \<and>
             (\<exists>sim. new_simulation cap rs ss = Inr sim \<and>
                    events sim = sort_key time evs0 \<and>
                    length (tank_log sim) = length (voyages rs) + length (voyages ss)))"
proof -
  let ?tp = "port_to (last (legs (route rs)))"
  let ?evs0 = "map (\<lambda>v. \<lparr>time = arrival (last (itinerary v)), type = river_arrival,
                          ship = ship_name v, port = ?tp,
                          volume = capacity v\<rparr>) (voyages rs) @
               map (\<lambda>v. \<lparr>time = departure (hd (itinerary v)), type = sea_departure,
                          ship = ship_name v, port = ?tp,
                          volume = capacity v\<rparr>) (voyages ss)"
  have b: "build_events rs ss = Inr ?evs0"
    using build_events_ok[OF assms] .
  have p: "and_then (get_ports (route rs)) (\<lambda>ports. Inr (last ports)) = Inr ?tp"
    using get_ports_ok[OF assms(1)] by (simp add: and_then_def)
  from new_simulation_ok[OF b, of cap] obtain sim where
    s: "new_simulation cap rs ss = Inr sim" "events sim = sort_key time ?evs0"
       "length (tank_log sim) = length ?evs0" by blast
  from s(3) have "length (tank_log sim) = length (voyages rs) + length (voyages ss)" by simp
  with s(1,2) have "\<exists>sim. new_simulation cap rs ss = Inr sim \<and>
                    events sim = sort_key time ?evs0 \<and>
                    length (tank_log sim) = length (voyages rs) + length (voyages ss)" by blast
  with b p show ?thesis unfolding Let_def by blast
qed

theorem C4_event_construction_witness:
  "legs (route ex_river) \<noteq> [] \<and>
   list_all (\<lambda>v. itinerary v \<noteq> []) (voyages ex_river) \<and>
   list_all (\<lambda>v. itinerary v \<noteq> []) (voyages ex_sea) \<and>
   build_events ex_river ex_sea = Inr ex_presort \<and>
   and_then (new_simulation 100 ex_river ex_sea) (\<lambda>sim. Inr (events sim)) = Inr ex_events"
proof -
  have h: "legs (route ex_river) \<noteq> []" "\<forall>v \<in> set (voyages ex_river). itinerary v \<noteq> []"
          "\<forall>v \<in> set (voyages ex_sea). itinerary v \<noteq> []"
    using ex_itineraries by blast+
  have b: "build_events ex_river ex_sea = Inr ex_presort"
    using C4_event_construction[OF h, of 100]
    by (simp add: sim_eval_defs eval_defs ex_presort_def)
  have e: "and_then (new_simulation 100 ex_river ex_sea) (\<lambda>sim. Inr (events sim)) = Inr ex_events"
    by (simp add: ex_sim_eq and_then_def ex_sim_def)
  from h b e show ?thesis unfolding list_all_iff by blast
qed

section \<open>Buffer simulation: order of application\<close>

lemma filter_by_type:
  assumes "\<forall>e \<in> set ins. type e = river_arrival" "\<forall>e \<in> set outs. type e = sea_departure"
  shows "filter (\<lambda>e. time e = t \<and> type e = river_arrival) (ins @ outs) =
           filter (\<lambda>e. time e = t) ins"
    and "filter (\<lambda>e. time e = t \<and> type e = sea_departure) (ins @ outs) =
           filter (\<lambda>e. time e = t) outs"
proof -
  have "filter (\<lambda>e. time e = t \<and> type e = river_arrival) ins = filter (\<lambda>e. time e = t) ins"
    using assms(1) by (intro filter_cong) auto
  moreover have "filter (\<lambda>e. time e = t \<and> type e = river_arrival) outs = []"
    using assms(2) by (auto simp: filter_empty_conv)
  ultimately show "filter (\<lambda>e. time e = t \<and> type e = river_arrival) (ins @ outs) =
           filter (\<lambda>e. time e = t) ins" by simp
  have "filter (\<lambda>e. time e = t \<and> type e = sea_departure) outs = filter (\<lambda>e. time e = t) outs"
    using assms(2) by (intro filter_cong) auto
  moreover have "filter (\<lambda>e. time e = t \<and> type e = sea_departure) ins = []"
    using assms(1) by (auto simp: filter_empty_conv)
  ultimately show "filter (\<lambda>e. time e = t \<and> type e = sea_departure) (ins @ outs) =
           filter (\<lambda>e. time e = t) outs" by simp
qed

lemma build_events_shape:
  assumes "build_events rs ss = Inr evs0"
  shows "\<exists>ins outs. evs0 = ins @ outs \<and> (\<forall>e \<in> set ins. type e = river_arrival) \<and>
                     (\<forall>e \<in> set outs. type e = sea_departure)"
proof -
  from build_events_Inr[OF assms] have
    h: "legs (route rs) \<noteq> []" "\<forall>v \<in> set (voyages rs). itinerary v \<noteq> []"
       "\<forall>v \<in> set (voyages ss). itinerary v \<noteq> []" by blast+
  let ?tp = "port_to (last (legs (route rs)))"
  let ?ins = "map (\<lambda>v. \<lparr>time = arrival (last (itinerary v)), type = river_arrival,
                          ship = ship_name v, port = ?tp,
                          volume = capacity v\<rparr>) (voyages rs)"
  let ?outs = "map (\<lambda>v. \<lparr>time = departure (hd (itinerary v)), type = sea_departure,
                          ship = ship_name v, port = ?tp,
                          volume = capacity v\<rparr>) (voyages ss)"
  from build_events_ok[OF h] assms have "evs0 = ?ins @ ?outs" by simp
  moreover have "\<forall>e \<in> set ?ins. type e = river_arrival" by simp
  moreover have "\<forall>e \<in> set ?outs. type e = sea_departure" by simp
  ultimately show ?thesis by blast
qed

text \<open>
  C5. The events of a simulation are in ascending order of time; among the events of one
  timestamp the inflow events come first, in their order before the sort, followed by
  the outflow events in theirs; and the log lists the events in exactly this order.
\<close>

theorem C5_stable_time_order:
  assumes "new_simulation cap rs ss = Inr sim" and "build_events rs ss = Inr evs0"
  shows "sorted (map time (events sim)) \<and>
         (\<forall>t. filter (\<lambda>e. time e = t) (events sim) =
               filter (\<lambda>e. time e = t \<and> type e = river_arrival) evs0 @
               filter (\<lambda>e. time e = t \<and> type e = sea_departure) evs0) \<and>
         map (\<lambda>l. (log_time l, log_ship l, action l, log_port l)) (tank_log sim) =
         map (\<lambda>e. (time e, ship e,
                    (case type e of river_arrival \<Rightarrow> Unload (volume e)
                                  | sea_departure \<Rightarrow> Load (volume e)), port e)) (events sim)"
proof -
  from new_simulation_Inr[OF assms(1)] assms(2) have
    ev: "events sim = sort_key time evs0" and
    rp: "replay cap (0, []) (events sim) = (level sim, tank_log sim)" by auto
  have a: "sorted (map time (events sim))" by (simp add: ev)
  from build_events_shape[OF assms(2)] obtain ins outs where
    sh: "evs0 = ins @ outs" "\<forall>e \<in> set ins. type e = river_arrival"
        "\<forall>e \<in> set outs. type e = sea_departure" by blast
  have b: "filter (\<lambda>e. time e = t) (events sim) =
           filter (\<lambda>e. time e = t \<and> type e = river_arrival) evs0 @
           filter (\<lambda>e. time e = t \<and> type e = sea_departure) evs0" for t
  proof -
    have "filter (\<lambda>e. time e = t) (events sim) = filter (\<lambda>e. time e = t) evs0"
      unfolding ev by (rule sort_key_stable)
    also have "\<dots> = filter (\<lambda>e. time e = t) ins @ filter (\<lambda>e. time e = t) outs"
      by (simp add: sh(1))
    finally show ?thesis
      unfolding sh(1) filter_by_type[OF sh(2,3)] .
  qed
  from replay_log_order[OF rp] have c:
    "map (\<lambda>l. (log_time l, log_ship l, action l, log_port l)) (tank_log sim) =
     map (\<lambda>e. (time e, ship e,
                (case type e of river_arrival \<Rightarrow> Unload (volume e)
                              | sea_departure \<Rightarrow> Load (volume e)), port e)) (events sim)"
    by simp
  from a b c show ?thesis by blast
qed

theorem C5_stable_time_order_witness:
  "new_simulation 100 ex_river ex_sea = Inr ex_sim \<and>
   build_events ex_river ex_sea = Inr ex_presort \<and>
   map type ex_presort = [river_arrival, river_arrival, sea_departure, sea_departure] \<and>
   sorted (map time (events ex_sim)) \<and>
   map type (filter (\<lambda>e. time e = 669600000000) (events ex_sim)) = [river_arrival, sea_departure] \<and>
   map action (tank_log ex_sim) = [Unload 30, Load 25, Unload 30, Load 25]"
proof -
  note w = C5_stable_time_order[OF ex_sim_eq ex_presort_eq]
  from w have "sorted (map time (events ex_sim))" by (rule conjunct1)
  moreover have "map type ex_presort = [river_arrival, river_arrival, sea_departure, sea_departure]"
    by (simp add: ex_presort_def)
  moreover have "map type (filter (\<lambda>e. time e = 669600000000) (events ex_sim)) = [river_arrival, sea_departure]"
    by (simp add: ex_sim_def ex_events_def)
  moreover have "map action (tank_log ex_sim) = [Unload 30, Load 25, Unload 30, Load 25]"
    by (simp add: ex_sim_def ex_log_def)
  ultimately show ?thesis using ex_sim_eq ex_presort_eq by blast
qed

section \<open>Buffer simulation: conservation\<close>

lemma net_volume_Nil: "net_volume [] = 0"
  by (simp add: net_volume_def total_inflow_def total_outflow_def)

lemma net_volume_snoc: "net_volume (es @ [e]) = net_volume es + signed_volume e"
  by (cases "type e")
     (simp_all add: net_volume_def total_inflow_def total_outflow_def signed_volume_def)

lemma round_double_eval:
  assumes "s = 2 powr of_int e" and "2 ^ 52 * s \<le> \<bar>x\<bar>" and "\<bar>x\<bar> < 2 ^ 53 * s"
  shows "round_double x = of_int (round_half_even (x / s)) * s"
proof -
  have s0: "0 < s" by (simp add: assms(1))
  with assms(2) have x0: "0 < \<bar>x\<bar>"
    by (smt (verit) mult_pos_pos zero_less_power)
  have p52: "(2::real) ^ 52 = 2 powr 52" and p53: "(2::real) ^ 53 = 2 powr 53"
    by simp_all
  have lo: "2 powr of_int (e + 52) \<le> \<bar>x\<bar>"
    using assms(2) unfolding assms(1) p52 by (simp add: powr_add mult.commute)
  have hi: "\<bar>x\<bar> < 2 powr (of_int (e + 52) + 1)"
    using assms(3) unfolding assms(1) p53 by (simp add: powr_add mult.commute add.assoc)
  have "\<lfloor>log 2 \<bar>x\<bar>\<rfloor> = e + 52"
    using floor_log_eq_powr_iff[of "\<bar>x\<bar>" 2 "e + 52"] x0 lo hi by simp
  then have "2 powr of_int (\<lfloor>log 2 \<bar>x\<bar>\<rfloor> - 52) = s" by (simp add: assms(1))
  moreover from x0 have "x \<noteq> 0" by auto
  ultimately show ?thesis by (simp add: round_double_def Let_def)
qed

lemma rd_tenth: "round_double (1 / 10) = ex_tenth"
proof -
  have "round_double (1 / 10) = of_int (round_half_even ((1 / 10) / (1 / 2 ^ 56))) * (1 / 2 ^ 56)"
    by (rule round_double_eval[where e = "- 56"]) (simp_all add: powr_minus_divide)
  also have "\<dots> = ex_tenth"
    by (simp add: round_half_even_def ex_tenth_def)
  finally show ?thesis .
qed

lemma replay_fl_Nil: "replay_fl rnd cap st [] = st"
  by (simp add: replay_fl_def)

lemma replay_fl_snoc:
  "replay_fl rnd cap st (es @ [e]) = apply_event_fl rnd cap (replay_fl rnd cap st es) e"
  by (simp add: replay_fl_def)

lemma apply_event_fl_exact: "apply_event_fl (\<lambda>x. x) cap st e = apply_event cap st e"
  by (cases st) simp

lemma replay_fl_exact: "replay_fl (\<lambda>x. x) cap st evs = replay cap st evs"
  by (induction evs rule: rev_induct)
     (simp_all add: replay_fl_Nil replay_Nil replay_fl_snoc replay_snoc apply_event_fl_exact)

lemma apply_event_fl_no_clamp:
  assumes "in_range cap (lvl + signed_volume e)"
      and "rnd (lvl + signed_volume e) = lvl + signed_volume e"
  shows "apply_event_fl rnd cap (lvl, tlog) e =
         (lvl + signed_volume e,
          tlog @ [\<lparr>log_time = time e, log_ship = ship e,
                    action = (case type e of river_arrival \<Rightarrow> Unload (volume e)
                                           | sea_departure \<Rightarrow> Load (volume e)),
                    tank_level = lvl + signed_volume e, log_port = port e\<rparr>])"
  using assms by (cases "type e") (auto simp: Let_def in_range_def signed_volume_def)

lemma replay_fl_no_clamp:
  "\<forall>k. 1 \<le> k \<and> k \<le> length evs \<longrightarrow>
       in_range cap (net_volume (take k evs)) \<and>
       rnd (net_volume (take k evs)) = net_volume (take k evs) \<Longrightarrow>
   replay_fl rnd cap (0, []) evs = (lvl, tlog) \<Longrightarrow>
   lvl = net_volume evs \<and>
   map tank_level tlog = map (\<lambda>k. net_volume (take k evs)) [1..<Suc (length evs)]"
proof (induction evs arbitrary: lvl tlog rule: rev_induct)
  case Nil
  then show ?case by (simp add: replay_fl_Nil net_volume_Nil)
next
  case (snoc e es)
  obtain l0 t0 where r0: "replay_fl rnd cap (0, []) es = (l0, t0)"
    by (cases "replay_fl rnd cap (0, []) es")
  have pre: "\<forall>k. 1 \<le> k \<and> k \<le> length es \<longrightarrow>
               in_range cap (net_volume (take k es)) \<and>
               rnd (net_volume (take k es)) = net_volume (take k es)"
  proof (intro allI impI)
    fix k assume k: "1 \<le> k \<and> k \<le> length es"
    then have "1 \<le> k \<and> k \<le> length (es @ [e])" by simp
    with snoc.prems(1) have
      "in_range cap (net_volume (take k (es @ [e]))) \<and>
       rnd (net_volume (take k (es @ [e]))) = net_volume (take k (es @ [e]))" by blast
    with k show "in_range cap (net_volume (take k es)) \<and>
                 rnd (net_volume (take k es)) = net_volume (take k es)" by simp
  qed
  from snoc.IH[OF pre r0] have
    l0: "l0 = net_volume es" and
    t0: "map tank_level t0 = map (\<lambda>k. net_volume (take k es)) [1..<Suc (length es)]"
    by blast+
  have "1 \<le> Suc (length es) \<and> Suc (length es) \<le> length (es @ [e])" by simp
  with snoc.prems(1) have
    "in_range cap (net_volume (take (Suc (length es)) (es @ [e]))) \<and>
     rnd (net_volume (take (Suc (length es)) (es @ [e]))) =
       net_volume (take (Suc (length es)) (es @ [e]))"
    by blast
  then have rng: "in_range cap (l0 + signed_volume e)"
        and ex: "rnd (l0 + signed_volume e) = l0 + signed_volume e"
    by (simp_all add: l0 net_volume_snoc)
  have "replay_fl rnd cap (0, []) (es @ [e]) = apply_event_fl rnd cap (l0, t0) e"
    by (simp add: replay_fl_snoc r0)
  with snoc.prems(2)
    apply_event_fl_no_clamp[where rnd = rnd and cap = cap and lvl = l0 and e = e and tlog = t0,
      OF rng ex]
  have lv: "lvl = l0 + signed_volume e" and
       tl: "map tank_level tlog = map tank_level t0 @ [l0 + signed_volume e]"
    by simp_all
  have m: "map (\<lambda>k. net_volume (take k (es @ [e]))) [1..<Suc (length es)] =
           map (\<lambda>k. net_volume (take k es)) [1..<Suc (length es)]"
    by (rule map_cong) auto
  have "map (\<lambda>k. net_volume (take k (es @ [e]))) [1..<Suc (length (es @ [e]))] =
        map (\<lambda>k. net_volume (take k es)) [1..<Suc (length es)] @ [net_volume (es @ [e])]"
    using m by simp
  with lv tl t0 l0 show ?case by (simp add: net_volume_snoc)
qed

subsection \<open>Sixteen inflows of 0.1 into a buffer of 1.6\<close>

lemma ex_tenths_Suc:
  "ex_tenths (Suc n) =
   ex_tenths n @ [\<lparr>time = 0, type = river_arrival, ship = ''Ship_1'', port = ''PortB'',
                    volume = ex_tenth\<rparr>]"
  by (simp add: ex_tenths_def replicate_append_same)

lemma ex_tenths_step:
  assumes "n' = Suc n"
      and "fst (replay_fl rnd cap (0, []) (ex_tenths n)) = l"
      and "map tank_level (snd (replay_fl rnd cap (0, []) (ex_tenths n))) = ls"
      and "rnd (l + ex_tenth) = u"
  shows "fst (replay_fl rnd cap (0, []) (ex_tenths n')) = (if cap < u then cap else u) \<and>
         map tank_level (snd (replay_fl rnd cap (0, []) (ex_tenths n'))) =
           ls @ [if cap < u then cap else u]"
proof -
  obtain l0 t0 where r: "replay_fl rnd cap (0, []) (ex_tenths n) = (l0, t0)"
    by (cases "replay_fl rnd cap (0, []) (ex_tenths n)")
  with assms(2,3) have "l0 = l" "map tank_level t0 = ls" by simp_all
  with r assms(4) show ?thesis
    unfolding assms(1) ex_tenths_Suc replay_fl_snoc by (simp add: Let_def)
qed

lemma ex_tenths_0:
  "fst (replay_fl rnd cap (0, []) (ex_tenths 0)) = 0 \<and>
   map tank_level (snd (replay_fl rnd cap (0, []) (ex_tenths 0))) = []"
  by (simp add: ex_tenths_def replay_fl_Nil)

lemma rd_1: "round_double (0 + ex_tenth) = 3602879701896397 / 36028797018963968"
proof -
  have "round_double (0 + ex_tenth) =
        of_int (round_half_even ((0 + ex_tenth) / (1 / 2 ^ 56))) * (1 / 2 ^ 56)"
    by (rule round_double_eval[where e = "- 56"]) (simp_all add: powr_minus_divide ex_tenth_def)
  also have "\<dots> = 3602879701896397 / 36028797018963968"
    by (simp add: round_half_even_def ex_tenth_def)
  finally show ?thesis .
qed

lemma rd_2: "round_double (3602879701896397 / 36028797018963968 + ex_tenth) = 3602879701896397 / 18014398509481984"
proof -
  have "round_double (3602879701896397 / 36028797018963968 + ex_tenth) =
        of_int (round_half_even ((3602879701896397 / 36028797018963968 + ex_tenth) / (1 / 2 ^ 55))) * (1 / 2 ^ 55)"
    by (rule round_double_eval[where e = "- 55"]) (simp_all add: powr_minus_divide ex_tenth_def)
  also have "\<dots> = 3602879701896397 / 18014398509481984"
    by (simp add: round_half_even_def ex_tenth_def)
  finally show ?thesis .
qed

lemma rd_3: "round_double (3602879701896397 / 18014398509481984 + ex_tenth) = 1351079888211149 / 4503599627370496"
proof -
  have "round_double (3602879701896397 / 18014398509481984 + ex_tenth) =
        of_int (round_half_even ((3602879701896397 / 18014398509481984 + ex_tenth) / (1 / 2 ^ 54))) * (1 / 2 ^ 54)"
    by (rule round_double_eval[where e = "- 54"]) (simp_all add: powr_minus_divide ex_tenth_def)
  also have "\<dots> = 1351079888211149 / 4503599627370496"
    by (simp add: round_half_even_def ex_tenth_def)
  finally show ?thesis .
qed

lemma rd_4: "round_double (1351079888211149 / 4503599627370496 + ex_tenth) = 3602879701896397 / 9007199254740992"
proof -
  have "round_double (1351079888211149 / 4503599627370496 + ex_tenth) =
        of_int (round_half_even ((1351079888211149 / 4503599627370496 + ex_tenth) / (1 / 2 ^ 54))) * (1 / 2 ^ 54)"
    by (rule round_double_eval[where e = "- 54"]) (simp_all add: powr_minus_divide ex_tenth_def)
  also have "\<dots> = 3602879701896397 / 9007199254740992"
    by (simp add: round_half_even_def ex_tenth_def)
  finally show ?thesis .
qed

lemma rd_5: "round_double (3602879701896397 / 9007199254740992 + ex_tenth) = 1 / 2"
proof -
  have "round_double (3602879701896397 / 9007199254740992 + ex_tenth) =
        of_int (round_half_even ((3602879701896397 / 9007199254740992 + ex_tenth) / (1 / 2 ^ 53))) * (1 / 2 ^ 53)"
    by (rule round_double_eval[where e = "- 53"]) (simp_all add: powr_minus_divide ex_tenth_def)
  also have "\<dots> = 1 / 2"
    by (simp add: round_half_even_def ex_tenth_def)
  finally show ?thesis .
qed

lemma rd_6: "round_double (1 / 2 + ex_tenth) = 5404319552844595 / 9007199254740992"
proof -
  have "round_double (1 / 2 + ex_tenth) =
        of_int (round_half_even ((1 / 2 + ex_tenth) / (1 / 2 ^ 53))) * (1 / 2 ^ 53)"
    by (rule round_double_eval[where e = "- 53"]) (simp_all add: powr_minus_divide ex_tenth_def)
  also have "\<dots> = 5404319552844595 / 9007199254740992"
    by (simp add: round_half_even_def ex_tenth_def)
  finally show ?thesis .
qed

lemma rd_7: "round_double (5404319552844595 / 9007199254740992 + ex_tenth) = 3152519739159347 / 4503599627370496"
proof -
  have "round_double (5404319552844595 / 9007199254740992 + ex_tenth) =
        of_int (round_half_even ((5404319552844595 / 9007199254740992 + ex_tenth) / (1 / 2 ^ 53))) * (1 / 2 ^ 53)"
    by (rule round_double_eval[where e = "- 53"]) (simp_all add: powr_minus_divide ex_tenth_def)
  also have "\<dots> = 3152519739159347 / 4503599627370496"
    by (simp add: round_half_even_def ex_tenth_def)
  finally show ?thesis .
qed

lemma rd_8: "round_double (3152519739159347 / 4503599627370496 + ex_tenth) = 7205759403792793 / 9007199254740992"
proof -
  have "round_double (3152519739159347 / 4503599627370496 + ex_tenth) =
        of_int (round_half_even ((3152519739159347 / 4503599627370496 + ex_tenth) / (1 / 2 ^ 53))) * (1 / 2 ^ 53)"
    by (rule round_double_eval[where e = "- 53"]) (simp_all add: powr_minus_divide ex_tenth_def)
  also have "\<dots> = 7205759403792793 / 9007199254740992"
    by (simp add: round_half_even_def ex_tenth_def)
  finally show ?thesis .
qed

lemma rd_9: "round_double (7205759403792793 / 9007199254740992 + ex_tenth) = 2026619832316723 / 2251799813685248"
proof -
  have "round_double (7205759403792793 / 9007199254740992 + ex_tenth) =
        of_int (round_half_even ((7205759403792793 / 9007199254740992 + ex_tenth) / (1 / 2 ^ 53))) * (1 / 2 ^ 53)"
    by (rule round_double_eval[where e = "- 53"]) (simp_all add: powr_minus_divide ex_tenth_def)
  also have "\<dots> = 2026619832316723 / 2251799813685248"
    by (simp add: round_half_even_def ex_tenth_def)
  finally show ?thesis .
qed

lemma rd_10: "round_double (2026619832316723 / 2251799813685248 + ex_tenth) = 9007199254740991 / 9007199254740992"
proof -
  have "round_double (2026619832316723 / 2251799813685248 + ex_tenth) =
        of_int (round_half_even ((2026619832316723 / 2251799813685248 + ex_tenth) / (1 / 2 ^ 53))) * (1 / 2 ^ 53)"
    by (rule round_double_eval[where e = "- 53"]) (simp_all add: powr_minus_divide ex_tenth_def)
  also have "\<dots> = 9007199254740991 / 9007199254740992"
    by (simp add: round_half_even_def ex_tenth_def)
  finally show ?thesis .
qed

lemma rd_11: "round_double (9007199254740991 / 9007199254740992 + ex_tenth) = 4953959590107545 / 4503599627370496"
proof -
  have "round_double (9007199254740991 / 9007199254740992 + ex_tenth) =
        of_int (round_half_even ((9007199254740991 / 9007199254740992 + ex_tenth) / (1 / 2 ^ 52))) * (1 / 2 ^ 52)"
    by (rule round_double_eval[where e = "- 52"]) (simp_all add: powr_minus_divide ex_tenth_def)
  also have "\<dots> = 4953959590107545 / 4503599627370496"
    by (simp add: round_half_even_def ex_tenth_def)
  finally show ?thesis .
qed

lemma rd_12: "round_double (4953959590107545 / 4503599627370496 + ex_tenth) = 5404319552844595 / 4503599627370496"
proof -
  have "round_double (4953959590107545 / 4503599627370496 + ex_tenth) =
        of_int (round_half_even ((4953959590107545 / 4503599627370496 + ex_tenth) / (1 / 2 ^ 52))) * (1 / 2 ^ 52)"
    by (rule round_double_eval[where e = "- 52"]) (simp_all add: powr_minus_divide ex_tenth_def)
  also have "\<dots> = 5404319552844595 / 4503599627370496"
    by (simp add: round_half_even_def ex_tenth_def)
  finally show ?thesis .
qed

lemma rd_13: "round_double (5404319552844595 / 4503599627370496 + ex_tenth) = 5854679515581645 / 4503599627370496"
proof -
  have "round_double (5404319552844595 / 4503599627370496 + ex_tenth) =
        of_int (round_half_even ((5404319552844595 / 4503599627370496 + ex_tenth) / (1 / 2 ^ 52))) * (1 / 2 ^ 52)"
    by (rule round_double_eval[where e = "- 52"]) (simp_all add: powr_minus_divide ex_tenth_def)
  also have "\<dots> = 5854679515581645 / 4503599627370496"
    by (simp add: round_half_even_def ex_tenth_def)
  finally show ?thesis .
qed

lemma rd_14: "round_double (5854679515581645 / 4503599627370496 + ex_tenth) = 6305039478318695 / 4503599627370496"
proof -
  have "round_double (5854679515581645 / 4503599627370496 + ex_tenth) =
        of_int (round_half_even ((5854679515581645 / 4503599627370496 + ex_tenth) / (1 / 2 ^ 52))) * (1 / 2 ^ 52)"
    by (rule round_double_eval[where e = "- 52"]) (simp_all add: powr_minus_divide ex_tenth_def)
  also have "\<dots> = 6305039478318695 / 4503599627370496"
    by (simp add: round_half_even_def ex_tenth_def)
  finally show ?thesis .
qed

lemma rd_15: "round_double (6305039478318695 / 4503599627370496 + ex_tenth) = 6755399441055745 / 4503599627370496"
proof -
  have "round_double (6305039478318695 / 4503599627370496 + ex_tenth) =
        of_int (round_half_even ((6305039478318695 / 4503599627370496 + ex_tenth) / (1 / 2 ^ 52))) * (1 / 2 ^ 52)"
    by (rule round_double_eval[where e = "- 52"]) (simp_all add: powr_minus_divide ex_tenth_def)
  also have "\<dots> = 6755399441055745 / 4503599627370496"
    by (simp add: round_half_even_def ex_tenth_def)
  finally show ?thesis .
qed

lemma rd_16: "round_double (6755399441055745 / 4503599627370496 + ex_tenth) = 7205759403792795 / 4503599627370496"
proof -
  have "round_double (6755399441055745 / 4503599627370496 + ex_tenth) =
        of_int (round_half_even ((6755399441055745 / 4503599627370496 + ex_tenth) / (1 / 2 ^ 52))) * (1 / 2 ^ 52)"
    by (rule round_double_eval[where e = "- 52"]) (simp_all add: powr_minus_divide ex_tenth_def)
  also have "\<dots> = 7205759403792795 / 4503599627370496"
    by (simp add: round_half_even_def ex_tenth_def)
  finally show ?thesis .
qed

lemma lv_1:
  "fst (replay_fl round_double ex_cap (0, []) (ex_tenths 1)) = 3602879701896397 / 36028797018963968 \<and>
   map tank_level (snd (replay_fl round_double ex_cap (0, []) (ex_tenths 1))) =
     [3602879701896397 / 36028797018963968]"
proof -
  have n: "(1::nat) = Suc 0" by simp
  note p = ex_tenths_0[of round_double ex_cap]
  from ex_tenths_step[OF n conjunct1[OF p] conjunct2[OF p] rd_1]
  show ?thesis by (simp add: ex_cap_def)
qed

lemma lv_2:
  "fst (replay_fl round_double ex_cap (0, []) (ex_tenths 2)) = 3602879701896397 / 18014398509481984 \<and>
   map tank_level (snd (replay_fl round_double ex_cap (0, []) (ex_tenths 2))) =
     [3602879701896397 / 36028797018963968, 3602879701896397 / 18014398509481984]"
proof -
  have n: "(2::nat) = Suc 1" by simp
  note p = lv_1
  from ex_tenths_step[OF n conjunct1[OF p] conjunct2[OF p] rd_2]
  show ?thesis by (simp add: ex_cap_def)
qed

lemma lv_3:
  "fst (replay_fl round_double ex_cap (0, []) (ex_tenths 3)) = 1351079888211149 / 4503599627370496 \<and>
   map tank_level (snd (replay_fl round_double ex_cap (0, []) (ex_tenths 3))) =
     [3602879701896397 / 36028797018963968, 3602879701896397 / 18014398509481984, 1351079888211149 / 4503599627370496]"
proof -
  have n: "(3::nat) = Suc 2" by simp
  note p = lv_2
  from ex_tenths_step[OF n conjunct1[OF p] conjunct2[OF p] rd_3]
  show ?thesis by (simp add: ex_cap_def)
qed

lemma lv_4:
  "fst (replay_fl round_double ex_cap (0, []) (ex_tenths 4)) = 3602879701896397 / 9007199254740992 \<and>
   map tank_level (snd (replay_fl round_double ex_cap (0, []) (ex_tenths 4))) =
     [3602879701896397 / 36028797018963968, 3602879701896397 / 18014398509481984, 1351079888211149 / 4503599627370496, 3602879701896397 / 9007199254740992]"
proof -
  have n: "(4::nat) = Suc 3" by simp
  note p = lv_3
  from ex_tenths_step[OF n conjunct1[OF p] conjunct2[OF p] rd_4]
  show ?thesis by (simp add: ex_cap_def)
qed

lemma lv_5:
  "fst (replay_fl round_double ex_cap (0, []) (ex_tenths 5)) = 1 / 2 \<and>
   map tank_level (snd (replay_fl round_double ex_cap (0, []) (ex_tenths 5))) =
     [3602879701896397 / 36028797018963968, 3602879701896397 / 18014398509481984, 1351079888211149 / 4503599627370496, 3602879701896397 / 9007199254740992, 1 / 2]"
proof -
  have n: "(5::nat) = Suc 4" by simp
  note p = lv_4
  from ex_tenths_step[OF n conjunct1[OF p] conjunct2[OF p] rd_5]
  show ?thesis by (simp add: ex_cap_def)
qed

lemma lv_6:
  "fst (replay_fl round_double ex_cap (0, []) (ex_tenths 6)) = 5404319552844595 / 9007199254740992 \<and>
   map tank_level (snd (replay_fl round_double ex_cap (0, []) (ex_tenths 6))) =
     [3602879701896397 / 36028797018963968, 3602879701896397 / 18014398509481984, 1351079888211149 / 4503599627370496, 3602879701896397 / 9007199254740992, 1 / 2, 5404319552844595 / 9007199254740992]"
proof -
  have n: "(6::nat) = Suc 5" by simp
  note p = lv_5
  from ex_tenths_step[OF n conjunct1[OF p] conjunct2[OF p] rd_6]
  show ?thesis by (simp add: ex_cap_def)
qed

lemma lv_7:
  "fst (replay_fl round_double ex_cap (0, []) (ex_tenths 7)) = 3152519739159347 / 4503599627370496 \<and>
   map tank_level (snd (replay_fl round_double ex_cap (0, []) (ex_tenths 7))) =
     [3602879701896397 / 36028797018963968, 3602879701896397 / 18014398509481984, 1351079888211149 / 4503599627370496, 3602879701896397 / 9007199254740992, 1 / 2, 5404319552844595 / 9007199254740992, 3152519739159347 / 4503599627370496]"
proof -
  have n: "(7::nat) = Suc 6" by simp
  note p = lv_6
  from ex_tenths_step[OF n conjunct1[OF p] conjunct2[OF p] rd_7]
  show ?thesis by (simp add: ex_cap_def)
qed

lemma lv_8:
  "fst (replay_fl round_double ex_cap (0, []) (ex_tenths 8)) = 7205759403792793 / 9007199254740992 \<and>
   map tank_level (snd (replay_fl round_double ex_cap (0, []) (ex_tenths 8))) =
     [3602879701896397 / 36028797018963968, 3602879701896397 / 18014398509481984, 1351079888211149 / 4503599627370496, 3602879701896397 / 9007199254740992, 1 / 2, 5404319552844595 / 9007199254740992, 3152519739159347 / 4503599627370496, 7205759403792793 / 9007199254740992]"
proof -
  have n: "(8::nat) = Suc 7" by simp
  note p = lv_7
  from ex_tenths_step[OF n conjunct1[OF p] conjunct2[OF p] rd_8]
  show ?thesis by (simp add: ex_cap_def)
qed

lemma lv_9:
  "fst (replay_fl round_double ex_cap (0, []) (ex_tenths 9)) = 2026619832316723 / 2251799813685248 \<and>
   map tank_level (snd (replay_fl round_double ex_cap (0, []) (ex_tenths 9))) =
     [3602879701896397 / 36028797018963968, 3602879701896397 / 18014398509481984, 1351079888211149 / 4503599627370496, 3602879701896397 / 9007199254740992, 1 / 2, 5404319552844595 / 9007199254740992, 3152519739159347 / 4503599627370496, 7205759403792793 / 9007199254740992, 2026619832316723 / 2251799813685248]"
proof -
  have n: "(9::nat) = Suc 8" by simp
  note p = lv_8
  from ex_tenths_step[OF n conjunct1[OF p] conjunct2[OF p] rd_9]
  show ?thesis by (simp add: ex_cap_def)
qed

lemma lv_10:
  "fst (replay_fl round_double ex_cap (0, []) (ex_tenths 10)) = 9007199254740991 / 9007199254740992 \<and>
   map tank_level (snd (replay_fl round_double ex_cap (0, []) (ex_tenths 10))) =
     [3602879701896397 / 36028797018963968, 3602879701896397 / 18014398509481984, 1351079888211149 / 4503599627370496, 3602879701896397 / 9007199254740992, 1 / 2, 5404319552844595 / 9007199254740992, 3152519739159347 / 4503599627370496, 7205759403792793 / 9007199254740992, 2026619832316723 / 2251799813685248, 9007199254740991 / 9007199254740992]"
proof -
  have n: "(10::nat) = Suc 9" by simp
  note p = lv_9
  from ex_tenths_step[OF n conjunct1[OF p] conjunct2[OF p] rd_10]
  show ?thesis by (simp add: ex_cap_def)
qed

lemma lv_11:
  "fst (replay_fl round_double ex_cap (0, []) (ex_tenths 11)) = 4953959590107545 / 4503599627370496 \<and>
   map tank_level (snd (replay_fl round_double ex_cap (0, []) (ex_tenths 11))) =
     [3602879701896397 / 36028797018963968, 3602879701896397 / 18014398509481984, 1351079888211149 / 4503599627370496, 3602879701896397 / 9007199254740992, 1 / 2, 5404319552844595 / 9007199254740992, 3152519739159347 / 4503599627370496, 7205759403792793 / 9007199254740992, 2026619832316723 / 2251799813685248, 9007199254740991 / 9007199254740992, 4953959590107545 / 4503599627370496]"
proof -
  have n: "(11::nat) = Suc 10" by simp
  note p = lv_10
  from ex_tenths_step[OF n conjunct1[OF p] conjunct2[OF p] rd_11]
  show ?thesis by (simp add: ex_cap_def)
qed

lemma lv_12:
  "fst (replay_fl round_double ex_cap (0, []) (ex_tenths 12)) = 5404319552844595 / 4503599627370496 \<and>
   map tank_level (snd (replay_fl round_double ex_cap (0, []) (ex_tenths 12))) =
     [3602879701896397 / 36028797018963968, 3602879701896397 / 18014398509481984, 1351079888211149 / 4503599627370496, 3602879701896397 / 9007199254740992, 1 / 2, 5404319552844595 / 9007199254740992, 3152519739159347 / 4503599627370496, 7205759403792793 / 9007199254740992, 2026619832316723 / 2251799813685248, 9007199254740991 / 9007199254740992, 4953959590107545 / 4503599627370496, 5404319552844595 / 4503599627370496]"
proof -
  have n: "(12::nat) = Suc 11" by simp
  note p = lv_11
  from ex_tenths_step[OF n conjunct1[OF p] conjunct2[OF p] rd_12]
  show ?thesis by (simp add: ex_cap_def)
qed

lemma lv_13:
  "fst (replay_fl round_double ex_cap (0, []) (ex_tenths 13)) = 5854679515581645 / 4503599627370496 \<and>
   map tank_level (snd (replay_fl round_double ex_cap (0, []) (ex_tenths 13))) =
     [3602879701896397 / 36028797018963968, 3602879701896397 / 18014398509481984, 1351079888211149 / 4503599627370496, 3602879701896397 / 9007199254740992, 1 / 2, 5404319552844595 / 9007199254740992, 3152519739159347 / 4503599627370496, 7205759403792793 / 9007199254740992, 2026619832316723 / 2251799813685248, 9007199254740991 / 9007199254740992, 4953959590107545 / 4503599627370496, 5404319552844595 / 4503599627370496, 5854679515581645 / 4503599627370496]"
proof -
  have n: "(13::nat) = Suc 12" by simp
  note p = lv_12
  from ex_tenths_step[OF n conjunct1[OF p] conjunct2[OF p] rd_13]
  show ?thesis by (simp add: ex_cap_def)
qed

lemma lv_14:
  "fst (replay_fl round_double ex_cap (0, []) (ex_tenths 14)) = 6305039478318695 / 4503599627370496 \<and>
   map tank_level (snd (replay_fl round_double ex_cap (0, []) (ex_tenths 14))) =
     [3602879701896397 / 36028797018963968, 3602879701896397 / 18014398509481984, 1351079888211149 / 4503599627370496, 3602879701896397 / 9007199254740992, 1 / 2, 5404319552844595 / 9007199254740992, 3152519739159347 / 4503599627370496, 7205759403792793 / 9007199254740992, 2026619832316723 / 2251799813685248, 9007199254740991 / 9007199254740992, 4953959590107545 / 4503599627370496, 5404319552844595 / 4503599627370496, 5854679515581645 / 4503599627370496, 6305039478318695 / 4503599627370496]"
proof -
  have n: "(14::nat) = Suc 13" by simp
  note p = lv_13
  from ex_tenths_step[OF n conjunct1[OF p] conjunct2[OF p] rd_14]
  show ?thesis by (simp add: ex_cap_def)
qed

lemma lv_15:
  "fst (replay_fl round_double ex_cap (0, []) (ex_tenths 15)) = 6755399441055745 / 4503599627370496 \<and>
   map tank_level (snd (replay_fl round_double ex_cap (0, []) (ex_tenths 15))) =
     [3602879701896397 / 36028797018963968, 3602879701896397 / 18014398509481984, 1351079888211149 / 4503599627370496, 3602879701896397 / 9007199254740992, 1 / 2, 5404319552844595 / 9007199254740992, 3152519739159347 / 4503599627370496, 7205759403792793 / 9007199254740992, 2026619832316723 / 2251799813685248, 9007199254740991 / 9007199254740992, 4953959590107545 / 4503599627370496, 5404319552844595 / 4503599627370496, 5854679515581645 / 4503599627370496, 6305039478318695 / 4503599627370496, 6755399441055745 / 4503599627370496]"
proof -
  have n: "(15::nat) = Suc 14" by simp
  note p = lv_14
  from ex_tenths_step[OF n conjunct1[OF p] conjunct2[OF p] rd_15]
  show ?thesis by (simp add: ex_cap_def)
qed

lemma lv_16:
  "fst (replay_fl round_double ex_cap (0, []) (ex_tenths 16)) = 3602879701896397 / 2251799813685248 \<and>
   map tank_level (snd (replay_fl round_double ex_cap (0, []) (ex_tenths 16))) =
     [3602879701896397 / 36028797018963968, 3602879701896397 / 18014398509481984, 1351079888211149 / 4503599627370496, 3602879701896397 / 9007199254740992, 1 / 2, 5404319552844595 / 9007199254740992, 3152519739159347 / 4503599627370496, 7205759403792793 / 9007199254740992, 2026619832316723 / 2251799813685248, 9007199254740991 / 9007199254740992, 4953959590107545 / 4503599627370496, 5404319552844595 / 4503599627370496, 5854679515581645 / 4503599627370496, 6305039478318695 / 4503599627370496, 6755399441055745 / 4503599627370496, 3602879701896397 / 2251799813685248]"
proof -
  have n: "(16::nat) = Suc 15" by simp
  note p = lv_15
  from ex_tenths_step[OF n conjunct1[OF p] conjunct2[OF p] rd_16]
  show ?thesis by (simp add: ex_cap_def)
qed

lemma rd_cap: "round_double (16 / 10) = ex_cap"
proof -
  have "round_double (16 / 10) = of_int (round_half_even ((16 / 10) / (1 / 2 ^ 52))) * (1 / 2 ^ 52)"
    by (rule round_double_eval[where e = "- 52"]) (simp_all add: powr_minus_divide)
  also have "\<dots> = ex_cap"
    by (simp add: round_half_even_def ex_cap_def)
  finally show ?thesis .
qed

lemma ex_tenths_totals:
  "total_inflow (ex_tenths n) = of_nat n * ex_tenth \<and> total_outflow (ex_tenths n) = 0"
  by (simp add: total_inflow_def total_outflow_def ex_tenths_def sum_list_replicate)

lemma take_ex_tenths: "take k (ex_tenths n) = ex_tenths (min k n)"
  by (simp add: ex_tenths_def)

text \<open>
  C6, as stated, fails on float volumes. \<open>ex_tenth\<close> and \<open>ex_cap\<close> are the floats \<^verbatim>\<open>0.1\<close> and
  \<^verbatim>\<open>1.6\<close>. For sixteen inflows of \<open>ex_tenth\<close> into a buffer of capacity \<open>ex_cap\<close> every
  prefix difference lies between 0 and the capacity, yet the sixteenth addition gives a
  level above the capacity, so that the clamp fires, the logged levels are not the
  prefix differences, and after three inflows the level is not the total inflow.
\<close>

theorem C6_counterexample:
  "round_double (1 / 10) = ex_tenth \<and> round_double (16 / 10) = ex_cap \<and>
   list_all (\<lambda>k. 0 \<le> total_inflow (take k (ex_tenths 16)) - total_outflow (take k (ex_tenths 16)) \<and>
                 total_inflow (take k (ex_tenths 16)) - total_outflow (take k (ex_tenths 16)) \<le> ex_cap)
            [1..<17] \<and>
   ex_cap < round_double (fst (replay_fl round_double ex_cap (0, []) (ex_tenths 15)) + ex_tenth) \<and>
   map tank_level (snd (replay_fl round_double ex_cap (0, []) (ex_tenths 16))) \<noteq>
     map (\<lambda>k. total_inflow (take k (ex_tenths 16)) - total_outflow (take k (ex_tenths 16)))
         [1..<17] \<and>
   fst (replay_fl round_double ex_cap (0, []) (ex_tenths 3)) \<noteq>
     total_inflow (ex_tenths 3) - total_outflow (ex_tenths 3)"
proof -
  have h: "list_all (\<lambda>k. 0 \<le> total_inflow (take k (ex_tenths 16)) - total_outflow (take k (ex_tenths 16)) \<and>
                 total_inflow (take k (ex_tenths 16)) - total_outflow (take k (ex_tenths 16)) \<le> ex_cap)
            [1..<17]"
    by (simp add: list_all_iff take_ex_tenths ex_tenths_totals ex_tenth_def ex_cap_def)
  have c: "ex_cap < round_double (fst (replay_fl round_double ex_cap (0, []) (ex_tenths 15)) + ex_tenth)"
    unfolding conjunct1[OF lv_15] rd_16 by (simp add: ex_cap_def)
  have "map tank_level (snd (replay_fl round_double ex_cap (0, []) (ex_tenths 16))) ! 2 \<noteq>
        map (\<lambda>k. total_inflow (take k (ex_tenths 16)) - total_outflow (take k (ex_tenths 16)))
            [1..<17] ! 2"
    unfolding conjunct2[OF lv_16]
    by (simp add: take_ex_tenths ex_tenths_totals ex_tenth_def upt_rec_numeral)
  then have d: "map tank_level (snd (replay_fl round_double ex_cap (0, []) (ex_tenths 16))) \<noteq>
     map (\<lambda>k. total_inflow (take k (ex_tenths 16)) - total_outflow (take k (ex_tenths 16)))
         [1..<17]" by metis
  have e: "fst (replay_fl round_double ex_cap (0, []) (ex_tenths 3)) \<noteq>
     total_inflow (ex_tenths 3) - total_outflow (ex_tenths 3)"
    unfolding conjunct1[OF lv_3] by (simp add: ex_tenths_totals ex_tenth_def)
  from rd_tenth rd_cap h c d e show ?thesis by blast
qed

text \<open>
  C6, amended. If for every non-empty prefix of the event sequence the inflow volume so
  far minus the outflow volume so far lies between 0 and the capacity and is a number
  the replay's arithmetic does not round, then every logged level is that difference (no
  step clamps) and the final level is the total inflow minus the total outflow. This
  holds whatever the rounding is, so for floats and for integers alike.
\<close>

theorem C6_conservation:
  assumes "\<forall>k. 1 \<le> k \<and> k \<le> length evs \<longrightarrow>
             0 \<le> total_inflow (take k evs) - total_outflow (take k evs) \<and>
             total_inflow (take k evs) - total_outflow (take k evs) \<le> cap \<and>
             rnd (total_inflow (take k evs) - total_outflow (take k evs)) =
               total_inflow (take k evs) - total_outflow (take k evs)"
  shows "fst (replay_fl rnd cap (0, []) evs) = total_inflow evs - total_outflow evs \<and>
         map tank_level (snd (replay_fl rnd cap (0, []) evs)) =
           map (\<lambda>k. total_inflow (take k evs) - total_outflow (take k evs))
               [1..<Suc (length evs)]"
proof -
  obtain lvl tlog where r: "replay_fl rnd cap (0, []) evs = (lvl, tlog)"
    by (cases "replay_fl rnd cap (0, []) evs")
  from assms have
    "\<forall>k. 1 \<le> k \<and> k \<le> length evs \<longrightarrow>
       in_range cap (net_volume (take k evs)) \<and>
       rnd (net_volume (take k evs)) = net_volume (take k evs)"
    by (simp add: in_range_def net_volume_def)
  from replay_fl_no_clamp[OF this r] r show ?thesis
    by (simp add: net_volume_def)
qed

lemma rd_whole:
  "round_double 30 = 30" "round_double 5 = 5" "round_double 35 = 35" "round_double 10 = 10"
proof -
  have "round_double 30 = of_int (round_half_even (30 / (1 / 2 ^ 48))) * (1 / 2 ^ 48)"
    by (rule round_double_eval[where e = "- 48"]) (simp_all add: powr_minus_divide)
  then show "round_double 30 = 30" by (simp add: round_half_even_def)
  have "round_double 5 = of_int (round_half_even (5 / (1 / 2 ^ 50))) * (1 / 2 ^ 50)"
    by (rule round_double_eval[where e = "- 50"]) (simp_all add: powr_minus_divide)
  then show "round_double 5 = 5" by (simp add: round_half_even_def)
  have "round_double 35 = of_int (round_half_even (35 / (1 / 2 ^ 47))) * (1 / 2 ^ 47)"
    by (rule round_double_eval[where e = "- 47"]) (simp_all add: powr_minus_divide)
  then show "round_double 35 = 35" by (simp add: round_half_even_def)
  have "round_double 10 = of_int (round_half_even (10 / (1 / 2 ^ 49))) * (1 / 2 ^ 49)"
    by (rule round_double_eval[where e = "- 49"]) (simp_all add: powr_minus_divide)
  then show "round_double 10 = 10" by (simp add: round_half_even_def)
qed

theorem C6_conservation_witness:
  "length ex_events = 4 \<and>
   map (\<lambda>k. total_inflow (take k ex_events) - total_outflow (take k ex_events)) [1, 2, 3, 4] =
     [30, 5, 35, 10] \<and>
   map round_double [30, 5, 35, 10] = [30, 5, 35, 10] \<and>
   total_inflow ex_events = 60 \<and> total_outflow ex_events = 50 \<and>
   fst (replay_fl round_double 100 (0, []) ex_events) = 10 \<and>
   map tank_level (snd (replay_fl round_double 100 (0, []) ex_events)) = [30, 5, 35, 10]"
proof -
  have p: "map (\<lambda>k. total_inflow (take k ex_events) - total_outflow (take k ex_events))
             [1, 2, 3, 4] = [30, 5, 35, 10]"
    by (simp add: ex_events_def total_inflow_def total_outflow_def)
  have l: "length ex_events = 4" by (simp add: ex_events_def)
  have rd: "map round_double [30, 5, 35, 10] = [30, 5, 35, 10]" by (simp add: rd_whole)
  have h: "\<forall>k. 1 \<le> k \<and> k \<le> length ex_events \<longrightarrow>
             0 \<le> total_inflow (take k ex_events) - total_outflow (take k ex_events) \<and>
             total_inflow (take k ex_events) - total_outflow (take k ex_events) \<le> 100 \<and>
             round_double (total_inflow (take k ex_events) - total_outflow (take k ex_events)) =
               total_inflow (take k ex_events) - total_outflow (take k ex_events)"
  proof (intro allI impI)
    fix k assume "1 \<le> k \<and> k \<le> length ex_events"
    with l have "k = 1 \<or> k = 2 \<or> k = 3 \<or> k = 4" by auto
    with p show "0 \<le> total_inflow (take k ex_events) - total_outflow (take k ex_events) \<and>
             total_inflow (take k ex_events) - total_outflow (take k ex_events) \<le> 100 \<and>
             round_double (total_inflow (take k ex_events) - total_outflow (take k ex_events)) =
               total_inflow (take k ex_events) - total_outflow (take k ex_events)"
      by (auto simp: rd_whole)
  qed
  have t: "total_inflow ex_events = 60" "total_outflow ex_events = 50"
    by (simp_all add: ex_events_def total_inflow_def total_outflow_def)
  note c = C6_conservation[OF h]
  from conjunct1[OF c] t have f: "fst (replay_fl round_double 100 (0, []) ex_events) = 10"
    by simp
  have u: "[1..<Suc (length ex_events)] = [1, 2, 3, 4]"
    unfolding l by (simp add: upt_rec)
  from conjunct2[OF c] have
    g: "map tank_level (snd (replay_fl round_double 100 (0, []) ex_events)) = [30, 5, 35, 10]"
    unfolding u p .
  from l p rd t f g show ?thesis by blast
qed

section \<open>Metrics: cycle length\<close>

lemma foldl_max_Max: "foldl max x xs = Max (insert x (set xs))"
proof (induction xs arbitrary: x)
  case Nil
  then show ?case by simp
next
  case (Cons y ys)
  have "Max (insert (max x y) (set ys)) = Max (insert x (insert y (set ys)))"
  proof (cases "set ys = {}")
    case True
    then show ?thesis by (simp add: max.commute)
  next
    case False
    then show ?thesis by (simp add: max.assoc)
  qed
  with Cons show ?case by simp
qed

lemma py_max_Max: "xs \<noteq> [] \<Longrightarrow> py_max xs = Inr (Max (set xs))"
  by (cases xs) (simp_all add: foldl_max_Max)

text \<open>
  C7. When the inflow scheduler has a first voyage with a first stop, the cycle length is
  the maximum, over the voyages of both schedulers, of the whole days (floor) from that
  first stop's departure to the voyage's final time; the base is the first inflow
  voyage's departure, whatever the departures of the outflow fleet are.
\<close>

theorem C7_cycle_length:
  assumes "voyages rs \<noteq> []" and "itinerary (hd (voyages rs)) \<noteq> []"
  shows "cycle_length rs ss =
         Inr (Max ((\<lambda>v. \<lfloor>real_of_int (arrival_final v -
                                       departure (hd (itinerary (hd (voyages rs))))) /
                         86400000000\<rfloor>) ` set (voyages rs @ voyages ss)))"
proof -
  from assms(1) obtain v0 vs where v: "voyages rs = v0 # vs" by (cases "voyages rs") auto
  with assms(2) obtain s0 sts where s: "itinerary v0 = s0 # sts"
    by (cases "itinerary v0") auto
  have "cycle_length rs ss =
        py_max (map (\<lambda>v. td_days (arrival_final v - departure s0)) (voyages rs @ voyages ss))"
    by (simp add: cycle_length_def v s)
  also have "\<dots> = Inr (Max (set (map (\<lambda>v. td_days (arrival_final v - departure s0))
                                     (voyages rs @ voyages ss))))"
    by (rule py_max_Max) (simp add: v)
  finally show ?thesis
    by (simp add: v s td_days_floor image_Un del: Max_insert)
qed

theorem C7_cycle_length_witness:
  "voyages ex_late_river \<noteq> [] \<and> itinerary (hd (voyages ex_late_river)) \<noteq> [] \<and>
   departure (hd (itinerary (hd (voyages ex_late_river)))) = 864000000000 \<and>
   departure (hd (itinerary (hd (voyages ex_early_sea)))) = 0 \<and>
   cycle_length ex_late_river ex_early_sea = Inr 9"
proof -
  have h: "voyages ex_late_river \<noteq> []" "itinerary (hd (voyages ex_late_river)) \<noteq> []"
    by (simp_all add: eval_defs ex_late_river_def)
  have "cycle_length ex_late_river ex_early_sea = Inr 9"
    unfolding C7_cycle_length[OF h, of ex_early_sea]
    by (simp add: eval_defs ex_late_river_def ex_early_sea_def ex_sea_route_def ex_leg3_def)
  moreover have "departure (hd (itinerary (hd (voyages ex_late_river)))) = 864000000000"
    "departure (hd (itinerary (hd (voyages ex_early_sea)))) = 0"
    by (simp_all add: eval_defs ex_late_river_def ex_early_sea_def ex_sea_route_def ex_leg3_def)
  ultimately show ?thesis using h by blast
qed

section \<open>Metrics: level extremes\<close>

lemma foldl_min_Min: "foldl min x xs = Min (insert x (set xs))"
proof (induction xs arbitrary: x)
  case Nil
  then show ?case by simp
next
  case (Cons y ys)
  have "Min (insert (min x y) (set ys)) = Min (insert x (insert y (set ys)))"
  proof (cases "set ys = {}")
    case True
    then show ?thesis by (simp add: min.commute)
  next
    case False
    then show ?thesis by (simp add: min.assoc)
  qed
  with Cons show ?case by simp
qed

lemma py_min_Min: "xs \<noteq> [] \<Longrightarrow> py_min xs = Inr (Min (set xs))"
  by (cases xs) (simp_all add: foldl_min_Min)

lemma ex_empty_sim_eq: "new_simulation 100 ex_no_river ex_no_sea = Inr ex_empty_sim"
  by (simp add: sim_eval_defs eval_defs empty_eval_defs)

lemma log_empty_iff:
  assumes "new_simulation cap rs ss = Inr sim"
  shows "tank_log sim = [] \<longleftrightarrow> voyages rs = [] \<and> voyages ss = []"
proof -
  from new_simulation_Inr[OF assms] obtain evs0 where
    b: "build_events rs ss = Inr evs0" by blast
  from build_events_Inr[OF b] have
    h: "legs (route rs) \<noteq> []" "\<forall>v \<in> set (voyages rs). itinerary v \<noteq> []"
       "\<forall>v \<in> set (voyages ss). itinerary v \<noteq> []" by blast+
  from build_events_ok[OF h] b have "length evs0 = length (voyages rs) + length (voyages ss)"
    by auto
  moreover from new_simulation_ok[OF b, of cap] assms have "length (tank_log sim) = length evs0"
    by auto
  ultimately have "length (tank_log sim) = length (voyages rs) + length (voyages ss)" by simp
  then show ?thesis by (metis add_is_0 length_0_conv)
qed

text \<open>
  C9, as stated, fails: with both fleets empty the log is empty and \<open>max_level\<close> and
  \<open>min_level\<close> stop with the \<open>ValueError\<close> of \<^verbatim>\<open>max\<close> and \<^verbatim>\<open>min\<close> on an empty list; with
  only the outflow fleet empty the log is not empty and both metrics are computed.
\<close>

theorem C9_counterexample:
  "and_then (new_simulation 100 ex_no_river ex_no_sea) log_levels = Inr [] \<and>
   and_then (new_simulation 100 ex_no_river ex_no_sea) max_level = Inl ValueError \<and>
   and_then (new_simulation 100 ex_no_river ex_no_sea) min_level = Inl ValueError \<and>
   and_then (new_simulation 100 ex_river ex_no_sea) log_levels = Inr [30, 60] \<and>
   and_then (new_simulation 100 ex_river ex_no_sea) max_level = Inr 60 \<and>
   and_then (new_simulation 100 ex_river ex_no_sea) min_level = Inr 30"
  by (simp add: sim_eval_defs eval_defs empty_eval_defs)

text \<open>
  C9, amended. Over a simulation whose log is empty, \<open>max_level\<close> and \<open>min_level\<close> fail
  with \<open>ValueError\<close>, never with \<open>EmptyResultError\<close>; over a non-empty log they return the
  greatest and the least logged level; and the log of a simulation is empty exactly when
  both fleets have no voyage.
\<close>

theorem C9_empty_log:
  "(tank_log sim = [] \<longrightarrow> max_level sim = Inl ValueError \<and> min_level sim = Inl ValueError) \<and>
   (tank_log sim \<noteq> [] \<longrightarrow>
      max_level sim = Inr (Max (tank_level ` set (tank_log sim))) \<and>
      min_level sim = Inr (Min (tank_level ` set (tank_log sim)))) \<and>
   max_level sim \<noteq> Inl EmptyResultError \<and> min_level sim \<noteq> Inl EmptyResultError \<and>
   (new_simulation cap rs ss = Inr sim \<longrightarrow>
      (tank_log sim = [] \<longleftrightarrow> voyages rs = [] \<and> voyages ss = []))"
proof -
  have a: "tank_log sim = [] \<longrightarrow> max_level sim = Inl ValueError \<and> min_level sim = Inl ValueError"
    by (simp add: max_level_def min_level_def)
  have b: "tank_log sim \<noteq> [] \<longrightarrow>
      max_level sim = Inr (Max (tank_level ` set (tank_log sim))) \<and>
      min_level sim = Inr (Min (tank_level ` set (tank_log sim)))"
    by (simp add: max_level_def min_level_def py_max_Max py_min_Min)
  from a b have c: "max_level sim \<noteq> Inl EmptyResultError \<and> min_level sim \<noteq> Inl EmptyResultError"
    by (cases "tank_log sim = []") simp_all
  from a b c log_empty_iff show ?thesis by blast
qed

theorem C9_empty_log_witness:
  "new_simulation 100 ex_no_river ex_no_sea = Inr ex_empty_sim \<and>
   tank_log ex_empty_sim = [] \<and>
   voyages ex_no_river = [] \<and> voyages ex_no_sea = [] \<and>
   max_level ex_empty_sim = Inl ValueError \<and> min_level ex_empty_sim = Inl ValueError \<and>
   tank_log ex_sim \<noteq> [] \<and> max_level ex_sim = Inr 35 \<and> min_level ex_sim = Inr 5"
proof -
  have e: "tank_log ex_empty_sim = []" by (simp add: ex_empty_sim_def)
  have n: "tank_log ex_sim \<noteq> []" by (simp add: ex_sim_def ex_log_def)
  from C9_empty_log[of ex_empty_sim 100 ex_no_river ex_no_sea] e ex_empty_sim_eq
  have "max_level ex_empty_sim = Inl ValueError \<and> min_level ex_empty_sim = Inl ValueError \<and>
        voyages ex_no_river = [] \<and> voyages ex_no_sea = []" by blast
  moreover from C9_empty_log[of ex_sim 100 ex_river ex_sea] n
  have "max_level ex_sim = Inr 35 \<and> min_level ex_sim = Inr 5"
    by (simp add: ex_sim_def ex_log_def)
  ultimately show ?thesis using e n ex_empty_sim_eq by blast
qed

section \<open>Construction without validation\<close>

lemma river_loop_error: "river_loop tp vs evs = Inl err \<Longrightarrow> err = IndexError"
  by (induction vs arbitrary: evs) (auto simp: Let_def split: if_splits)

lemma sea_loop_error: "sea_loop tp vs evs = Inl err \<Longrightarrow> err = IndexError"
  by (induction vs arbitrary: evs) (auto split: list.splits)

lemma build_events_error:
  assumes "build_events rs ss = Inl err"
  shows "err = IndexError"
proof (cases "get_ports (route rs)")
  case (Inl e)
  then have "e = IndexError" by (auto simp: get_ports_def split: list.splits)
  with Inl assms show ?thesis by (simp add: build_events_def)
next
  case (Inr ports)
  show ?thesis
  proof (cases "river_loop (last ports) (voyages rs) []")
    case (Inl e)
    with Inr assms river_loop_error[OF Inl] show ?thesis
      by (simp add: build_events_def Let_def)
  next
    case r: (Inr evs)
    with Inr assms have "sea_loop (last ports) (voyages ss) evs = Inl err"
      by (simp add: build_events_def Let_def)
    then show ?thesis by (rule sea_loop_error)
  qed
qed

lemma new_simulation_error:
  assumes "new_simulation cap rs ss = Inl err"
  shows "err = IndexError"
proof (cases "build_events rs ss")
  case (Inl e)
  with assms have "e = err" by (simp add: new_simulation_def)
  with build_events_error[OF Inl] show ?thesis by simp
next
  case (Inr evs0)
  from new_simulation_ok[OF Inr, of cap] assms show ?thesis by auto
qed

text \<open>
  C10, as stated, fails: a scheduler for zero or for \<open>- 3\<close> vessels is built with no
  voyages, a scheduler over an empty leg list is built with empty itineraries, and a
  simulation of capacity 0 or \<open>- 10\<close> is built and logs levels.
\<close>

theorem C10_counterexample:
  "voyages (new_scheduler ex_route 0 0 1) = [] \<and>
   voyages (new_scheduler ex_route 0 (- 3) 1) = [] \<and>
   map itinerary (voyages (new_scheduler ex_empty_route 0 2 1)) = [[], []] \<and>
   and_then (new_simulation 0 ex_river ex_sea) log_levels = Inr [0, 0, 0, 0] \<and>
   and_then (new_simulation (- 10) ex_river ex_sea) log_levels = Inr [- 10, 0, - 10, 0]"
  by (simp add: sim_eval_defs eval_defs empty_eval_defs)

text \<open>
  C10, amended. Neither constructor validates its arguments and none fails with
  \<open>InvalidConfiguration\<close>: a vessel count of zero or less gives a scheduler without
  voyages, an empty leg list gives one voyage per vessel with an empty itinerary and
  total time 0, and a simulation is built for every capacity, zero and negative ones
  too, whenever the inflow route has a leg and every voyage has a stop.
\<close>

theorem C10_no_validation:
  "(n \<le> 0 \<longrightarrow> voyages (new_scheduler r start n d) = []) \<and>
   (legs r' = [] \<longrightarrow>
      length (voyages (new_scheduler r' start' n' d')) = nat n' \<and>
      (\<forall>v \<in> set (voyages (new_scheduler r' start' n' d')).
         itinerary v = [] \<and> total_voyage_time v = 0)) \<and>
   new_simulation cap rs ss \<noteq> Inl InvalidConfiguration \<and>
   (legs (route rs) \<noteq> [] \<and> (\<forall>v \<in> set (voyages rs). itinerary v \<noteq> []) \<and>
    (\<forall>v \<in> set (voyages ss). itinerary v \<noteq> []) \<longrightarrow>
      (\<exists>sim. new_simulation cap rs ss = Inr sim \<and> tank_capacity sim = cap))"
proof -
  have a: "n \<le> 0 \<longrightarrow> voyages (new_scheduler r start n d) = []"
    by (simp add: voyages_new_scheduler)
  have b: "legs r' = [] \<longrightarrow>
      length (voyages (new_scheduler r' start' n' d')) = nat n' \<and>
      (\<forall>v \<in> set (voyages (new_scheduler r' start' n' d')).
         itinerary v = [] \<and> total_voyage_time v = 0)"
    by (auto simp: voyages_new_scheduler calculate_voyage_def td_days_def)
  have c: "new_simulation cap rs ss \<noteq> Inl InvalidConfiguration"
    using new_simulation_error[of cap rs ss InvalidConfiguration] by auto
  have e: "legs (route rs) \<noteq> [] \<and> (\<forall>v \<in> set (voyages rs). itinerary v \<noteq> []) \<and>
    (\<forall>v \<in> set (voyages ss). itinerary v \<noteq> []) \<longrightarrow>
      (\<exists>sim. new_simulation cap rs ss = Inr sim \<and> tank_capacity sim = cap)"
  proof
    assume h: "legs (route rs) \<noteq> [] \<and> (\<forall>v \<in> set (voyages rs). itinerary v \<noteq> []) \<and>
               (\<forall>v \<in> set (voyages ss). itinerary v \<noteq> [])"
    then have "\<exists>evs0. build_events rs ss = Inr evs0"
      using build_events_ok[of rs ss] by blast
    then obtain evs0 where "build_events rs ss = Inr evs0" ..
    from new_simulation_ok[OF this, of cap]
    show "\<exists>sim. new_simulation cap rs ss = Inr sim \<and> tank_capacity sim = cap" by blast
  qed
  from a b c e show ?thesis by blast
qed

theorem C10_no_validation_witness:
  "(- 3 :: int) \<le> 0 \<and> voyages (new_scheduler ex_route 0 (- 3) 1) = [] \<and>
   legs ex_empty_route = [] \<and>
   map itinerary (voyages (new_scheduler ex_empty_route 0 2 1)) = [[], []] \<and>
   map total_voyage_time (voyages (new_scheduler ex_empty_route 0 2 1)) = [0, 0] \<and>
   legs (route ex_river) \<noteq> [] \<and>
   list_all (\<lambda>v. itinerary v \<noteq> []) (voyages ex_river) \<and>
   list_all (\<lambda>v. itinerary v \<noteq> []) (voyages ex_sea) \<and>
   (\<exists>sim. new_simulation (- 10) ex_river ex_sea = Inr sim \<and> tank_capacity sim = - 10)"
proof -
  have h1: "(- 3 :: int) \<le> 0" by simp
  have h2: "legs ex_empty_route = []" by (simp add: ex_empty_route_def)
  note t = C10_no_validation[of "- 3" ex_route 0 1 ex_empty_route 0 2 1 "- 10" ex_river ex_sea]
  from t h1 have a: "voyages (new_scheduler ex_route 0 (- 3) 1) = []" by blast
  have b: "map itinerary (voyages (new_scheduler ex_empty_route 0 2 1)) = [[], []]"
          "map total_voyage_time (voyages (new_scheduler ex_empty_route 0 2 1)) = [0, 0]"
    by (simp_all add: eval_defs ex_empty_route_def)
  from t ex_itineraries
  have c: "\<exists>sim. new_simulation (- 10) ex_river ex_sea = Inr sim \<and> tank_capacity sim = - 10"
    by blast
  from h1 h2 a b c ex_itineraries show ?thesis unfolding list_all_iff by blast
qed

end
